theory Spec2Isabelle
  imports Complex_Main
begin

section \<open>The transcript cleaner \<^verbatim>\<open>clean_transcript.py\<close>\<close>

text \<open>
  The theory embeds \<^verbatim>\<open>youtube-content-processor/src/clean_transcript.py\<close>:
  the function \<^verbatim>\<open>aggressive_clean_vtt\<close> with its five phases (lines 15-96) and the
  entry point with \<^verbatim>\<open>download_and_clean_subtitles\<close> (lines 98-150).

  Conventions of the embedding.
  \<^item> A Python \<^verbatim>\<open>str\<close> is a list of code points, and a code point is an integer;
    \<^verbatim>\<open>len\<close> is the length of the list. The character classes and the case mappings of
    \<^verbatim>\<open>str\<close> and \<^verbatim>\<open>re\<close> are tables of the Unicode Character Database; the tables below
    are those of version 14.0.0, which CPython 3.11 carries, over all code points from 0 to
    0x10FFFF.
  \<^item> A Python \<^verbatim>\<open>float\<close> is a double; a finite double is the rational number it denotes
    (the two zeros are one value). \<^verbatim>\<open>int / int\<close> is the quotient rounded to the nearest
    double, ties to even; it raises \<^verbatim>\<open>ZeroDivisionError\<close> on a zero divisor and
    \<^verbatim>\<open>OverflowError\<close> when the rounded quotient is beyond the doubles, and an exception is
    a value of the result type here.
  \<^item> Every \<^verbatim>\<open>for\<close> loop is a recursive function over the remaining items that carries
    the variables the loop updates.
\<close>

subsection \<open>Strings\<close>

type_synonym str = "int list"

text \<open>A string literal of the program, as a list of code points.\<close>

definition ustr :: "string \<Rightarrow> str" where
  "ustr s = map of_char s"

subsection \<open>The tables of the Unicode Character Database\<close>

text \<open>
  A table of ranges is a list of parts, each part a list of ranges \<open>(lo, hi)\<close> in
  increasing order.
\<close>

fun in_ranges :: "int \<Rightarrow> (int \<times> int) list \<Rightarrow> bool" where
  "in_ranges c [] = False"
| "in_ranges c ((lo, hi) # rs) =
     (if c < lo then False else if c \<le> hi then True else in_ranges c rs)"

definition in_table :: "int \<Rightarrow> (int \<times> int) list list \<Rightarrow> bool" where
  "in_table c t = list_ex (in_ranges c) t"

fun lookup_ranges :: "int \<Rightarrow> (int \<times> int \<times> int \<times> int \<times> int list) list \<Rightarrow> int list option" where
  "lookup_ranges c [] = None"
| "lookup_ranges c ((lo, hi, step, t, ts) # es) =
     (if c < lo then None
      else if c \<le> hi then (if (c - lo) mod step = 0 then Some ((t + (c - lo)) # ts) else None)
      else lookup_ranges c es)"

fun lookup_table :: "int \<Rightarrow> (int \<times> int \<times> int \<times> int \<times> int list) list list \<Rightarrow> int list option" where
  "lookup_table c [] = None"
| "lookup_table c (es # ess) =
     (case lookup_ranges c es of Some r \<Rightarrow> Some r | None \<Rightarrow> lookup_table c ess)"

text \<open>The code points for which \<^verbatim>\<open>str.isspace\<close> holds. The methods \<^verbatim>\<open>str.strip\<close> and
  \<^verbatim>\<open>str.split\<close> and the pattern \<^verbatim>\<open>\s\<close> use the same ones.\<close>

definition space_ranges :: "(int \<times> int) list list" where
  "space_ranges =
    [[(0x9, 0xD), (0x1C, 0x20), (0x85, 0x85), (0xA0, 0xA0), (0x1680, 0x1680), (0x2000, 0x200A),
     (0x2028, 0x2029), (0x202F, 0x202F), (0x205F, 0x205F), (0x3000, 0x3000)]]"

text \<open>The code points for which \<^verbatim>\<open>str.isdigit\<close> holds.\<close>

definition digit_ranges_1 :: "(int \<times> int) list" where
  "digit_ranges_1 =
    [(0x30, 0x39), (0xB2, 0xB3), (0xB9, 0xB9), (0x660, 0x669), (0x6F0, 0x6F9), (0x7C0, 0x7C9),
     (0x966, 0x96F), (0x9E6, 0x9EF), (0xA66, 0xA6F), (0xAE6, 0xAEF), (0xB66, 0xB6F),
     (0xBE6, 0xBEF), (0xC66, 0xC6F), (0xCE6, 0xCEF), (0xD66, 0xD6F), (0xDE6, 0xDEF),
     (0xE50, 0xE59), (0xED0, 0xED9), (0xF20, 0xF29), (0x1040, 0x1049), (0x1090, 0x1099),
     (0x1369, 0x1371), (0x17E0, 0x17E9), (0x1810, 0x1819), (0x1946, 0x194F), (0x19D0, 0x19DA),
     (0x1A80, 0x1A89), (0x1A90, 0x1A99), (0x1B50, 0x1B59), (0x1BB0, 0x1BB9), (0x1C40, 0x1C49),
     (0x1C50, 0x1C59), (0x2070, 0x2070), (0x2074, 0x2079), (0x2080, 0x2089), (0x2460, 0x2468),
     (0x2474, 0x247C), (0x2488, 0x2490), (0x24EA, 0x24EA), (0x24F5, 0x24FD), (0x24FF, 0x24FF),
     (0x2776, 0x277E), (0x2780, 0x2788), (0x278A, 0x2792), (0xA620, 0xA629), (0xA8D0, 0xA8D9),
     (0xA900, 0xA909), (0xA9D0, 0xA9D9), (0xA9F0, 0xA9F9), (0xAA50, 0xAA59), (0xABF0, 0xABF9),
     (0xFF10, 0xFF19), (0x104A0, 0x104A9), (0x10A40, 0x10A43), (0x10D30, 0x10D39),
     (0x10E60, 0x10E68), (0x11052, 0x1105A), (0x11066, 0x1106F), (0x110F0, 0x110F9),
     (0x11136, 0x1113F), (0x111D0, 0x111D9), (0x112F0, 0x112F9), (0x11450, 0x11459),
     (0x114D0, 0x114D9)]"

definition digit_ranges_2 :: "(int \<times> int) list" where
  "digit_ranges_2 =
    [(0x11650, 0x11659), (0x116C0, 0x116C9), (0x11730, 0x11739), (0x118E0, 0x118E9),
     (0x11950, 0x11959), (0x11C50, 0x11C59), (0x11D50, 0x11D59), (0x11DA0, 0x11DA9),
     (0x16A60, 0x16A69), (0x16AC0, 0x16AC9), (0x16B50, 0x16B59), (0x1D7CE, 0x1D7FF),
     (0x1E140, 0x1E149), (0x1E2F0, 0x1E2F9), (0x1E950, 0x1E959), (0x1F100, 0x1F10A),
     (0x1FBF0, 0x1FBF9)]"

definition digit_ranges :: "(int \<times> int) list list" where
  "digit_ranges =
    [digit_ranges_1, digit_ranges_2]"

text \<open>The code points for which \<^verbatim>\<open>str.isalnum\<close> holds.\<close>

definition alnum_ranges_1 :: "(int \<times> int) list" where
  "alnum_ranges_1 =
    [(0x30, 0x39), (0x41, 0x5A), (0x61, 0x7A), (0xAA, 0xAA), (0xB2, 0xB3), (0xB5, 0xB5),
     (0xB9, 0xBA), (0xBC, 0xBE), (0xC0, 0xD6), (0xD8, 0xF6), (0xF8, 0x2C1), (0x2C6, 0x2D1),
     (0x2E0, 0x2E4), (0x2EC, 0x2EC), (0x2EE, 0x2EE), (0x370, 0x374), (0x376, 0x377),
     (0x37A, 0x37D), (0x37F, 0x37F), (0x386, 0x386), (0x388, 0x38A), (0x38C, 0x38C),
     (0x38E, 0x3A1), (0x3A3, 0x3F5), (0x3F7, 0x481), (0x48A, 0x52F), (0x531, 0x556),
     (0x559, 0x559), (0x560, 0x588), (0x5D0, 0x5EA), (0x5EF, 0x5F2), (0x620, 0x64A),
     (0x660, 0x669), (0x66E, 0x66F), (0x671, 0x6D3), (0x6D5, 0x6D5), (0x6E5, 0x6E6),
     (0x6EE, 0x6FC), (0x6FF, 0x6FF), (0x710, 0x710), (0x712, 0x72F), (0x74D, 0x7A5),
     (0x7B1, 0x7B1), (0x7C0, 0x7EA), (0x7F4, 0x7F5), (0x7FA, 0x7FA), (0x800, 0x815),
     (0x81A, 0x81A), (0x824, 0x824), (0x828, 0x828), (0x840, 0x858), (0x860, 0x86A),
     (0x870, 0x887), (0x889, 0x88E), (0x8A0, 0x8C9), (0x904, 0x939), (0x93D, 0x93D),
     (0x950, 0x950), (0x958, 0x961), (0x966, 0x96F), (0x971, 0x980), (0x985, 0x98C),
     (0x98F, 0x990), (0x993, 0x9A8)]"

definition alnum_ranges_2 :: "(int \<times> int) list" where
  "alnum_ranges_2 =
    [(0x9AA, 0x9B0), (0x9B2, 0x9B2), (0x9B6, 0x9B9), (0x9BD, 0x9BD), (0x9CE, 0x9CE),
     (0x9DC, 0x9DD), (0x9DF, 0x9E1), (0x9E6, 0x9F1), (0x9F4, 0x9F9), (0x9FC, 0x9FC),
     (0xA05, 0xA0A), (0xA0F, 0xA10), (0xA13, 0xA28), (0xA2A, 0xA30), (0xA32, 0xA33),
     (0xA35, 0xA36), (0xA38, 0xA39), (0xA59, 0xA5C), (0xA5E, 0xA5E), (0xA66, 0xA6F),
     (0xA72, 0xA74), (0xA85, 0xA8D), (0xA8F, 0xA91), (0xA93, 0xAA8), (0xAAA, 0xAB0),
     (0xAB2, 0xAB3), (0xAB5, 0xAB9), (0xABD, 0xABD), (0xAD0, 0xAD0), (0xAE0, 0xAE1),
     (0xAE6, 0xAEF), (0xAF9, 0xAF9), (0xB05, 0xB0C), (0xB0F, 0xB10), (0xB13, 0xB28),
     (0xB2A, 0xB30), (0xB32, 0xB33), (0xB35, 0xB39), (0xB3D, 0xB3D), (0xB5C, 0xB5D),
     (0xB5F, 0xB61), (0xB66, 0xB6F), (0xB71, 0xB77), (0xB83, 0xB83), (0xB85, 0xB8A),
     (0xB8E, 0xB90), (0xB92, 0xB95), (0xB99, 0xB9A), (0xB9C, 0xB9C), (0xB9E, 0xB9F),
     (0xBA3, 0xBA4), (0xBA8, 0xBAA), (0xBAE, 0xBB9), (0xBD0, 0xBD0), (0xBE6, 0xBF2),
     (0xC05, 0xC0C), (0xC0E, 0xC10), (0xC12, 0xC28), (0xC2A, 0xC39), (0xC3D, 0xC3D),
     (0xC58, 0xC5A), (0xC5D, 0xC5D), (0xC60, 0xC61), (0xC66, 0xC6F)]"

definition alnum_ranges_3 :: "(int \<times> int) list" where
  "alnum_ranges_3 =
    [(0xC78, 0xC7E), (0xC80, 0xC80), (0xC85, 0xC8C), (0xC8E, 0xC90), (0xC92, 0xCA8),
     (0xCAA, 0xCB3), (0xCB5, 0xCB9), (0xCBD, 0xCBD), (0xCDD, 0xCDE), (0xCE0, 0xCE1),
     (0xCE6, 0xCEF), (0xCF1, 0xCF2), (0xD04, 0xD0C), (0xD0E, 0xD10), (0xD12, 0xD3A),
     (0xD3D, 0xD3D), (0xD4E, 0xD4E), (0xD54, 0xD56), (0xD58, 0xD61), (0xD66, 0xD78),
     (0xD7A, 0xD7F), (0xD85, 0xD96), (0xD9A, 0xDB1), (0xDB3, 0xDBB), (0xDBD, 0xDBD),
     (0xDC0, 0xDC6), (0xDE6, 0xDEF), (0xE01, 0xE30), (0xE32, 0xE33), (0xE40, 0xE46),
     (0xE50, 0xE59), (0xE81, 0xE82), (0xE84, 0xE84), (0xE86, 0xE8A), (0xE8C, 0xEA3),
     (0xEA5, 0xEA5), (0xEA7, 0xEB0), (0xEB2, 0xEB3), (0xEBD, 0xEBD), (0xEC0, 0xEC4),
     (0xEC6, 0xEC6), (0xED0, 0xED9), (0xEDC, 0xEDF), (0xF00, 0xF00), (0xF20, 0xF33),
     (0xF40, 0xF47), (0xF49, 0xF6C), (0xF88, 0xF8C), (0x1000, 0x102A), (0x103F, 0x1049),
     (0x1050, 0x1055), (0x105A, 0x105D), (0x1061, 0x1061), (0x1065, 0x1066), (0x106E, 0x1070),
     (0x1075, 0x1081), (0x108E, 0x108E), (0x1090, 0x1099), (0x10A0, 0x10C5), (0x10C7, 0x10C7),
     (0x10CD, 0x10CD), (0x10D0, 0x10FA), (0x10FC, 0x1248), (0x124A, 0x124D)]"

definition alnum_ranges_4 :: "(int \<times> int) list" where
  "alnum_ranges_4 =
    [(0x1250, 0x1256), (0x1258, 0x1258), (0x125A, 0x125D), (0x1260, 0x1288), (0x128A, 0x128D),
     (0x1290, 0x12B0), (0x12B2, 0x12B5), (0x12B8, 0x12BE), (0x12C0, 0x12C0), (0x12C2, 0x12C5),
     (0x12C8, 0x12D6), (0x12D8, 0x1310), (0x1312, 0x1315), (0x1318, 0x135A), (0x1369, 0x137C),
     (0x1380, 0x138F), (0x13A0, 0x13F5), (0x13F8, 0x13FD), (0x1401, 0x166C), (0x166F, 0x167F),
     (0x1681, 0x169A), (0x16A0, 0x16EA), (0x16EE, 0x16F8), (0x1700, 0x1711), (0x171F, 0x1731),
     (0x1740, 0x1751), (0x1760, 0x176C), (0x176E, 0x1770), (0x1780, 0x17B3), (0x17D7, 0x17D7),
     (0x17DC, 0x17DC), (0x17E0, 0x17E9), (0x17F0, 0x17F9), (0x1810, 0x1819), (0x1820, 0x1878),
     (0x1880, 0x1884), (0x1887, 0x18A8), (0x18AA, 0x18AA), (0x18B0, 0x18F5), (0x1900, 0x191E),
     (0x1946, 0x196D), (0x1970, 0x1974), (0x1980, 0x19AB), (0x19B0, 0x19C9), (0x19D0, 0x19DA),
     (0x1A00, 0x1A16), (0x1A20, 0x1A54), (0x1A80, 0x1A89), (0x1A90, 0x1A99), (0x1AA7, 0x1AA7),
     (0x1B05, 0x1B33), (0x1B45, 0x1B4C), (0x1B50, 0x1B59), (0x1B83, 0x1BA0), (0x1BAE, 0x1BE5),
     (0x1C00, 0x1C23), (0x1C40, 0x1C49), (0x1C4D, 0x1C7D), (0x1C80, 0x1C88), (0x1C90, 0x1CBA),
     (0x1CBD, 0x1CBF), (0x1CE9, 0x1CEC), (0x1CEE, 0x1CF3), (0x1CF5, 0x1CF6)]"

definition alnum_ranges_5 :: "(int \<times> int) list" where
  "alnum_ranges_5 =
    [(0x1CFA, 0x1CFA), (0x1D00, 0x1DBF), (0x1E00, 0x1F15), (0x1F18, 0x1F1D), (0x1F20, 0x1F45),
     (0x1F48, 0x1F4D), (0x1F50, 0x1F57), (0x1F59, 0x1F59), (0x1F5B, 0x1F5B), (0x1F5D, 0x1F5D),
     (0x1F5F, 0x1F7D), (0x1F80, 0x1FB4), (0x1FB6, 0x1FBC), (0x1FBE, 0x1FBE), (0x1FC2, 0x1FC4),
     (0x1FC6, 0x1FCC), (0x1FD0, 0x1FD3), (0x1FD6, 0x1FDB), (0x1FE0, 0x1FEC), (0x1FF2, 0x1FF4),
     (0x1FF6, 0x1FFC), (0x2070, 0x2071), (0x2074, 0x2079), (0x207F, 0x2089), (0x2090, 0x209C),
     (0x2102, 0x2102), (0x2107, 0x2107), (0x210A, 0x2113), (0x2115, 0x2115), (0x2119, 0x211D),
     (0x2124, 0x2124), (0x2126, 0x2126), (0x2128, 0x2128), (0x212A, 0x212D), (0x212F, 0x2139),
     (0x213C, 0x213F), (0x2145, 0x2149), (0x214E, 0x214E), (0x2150, 0x2189), (0x2460, 0x249B),
     (0x24EA, 0x24FF), (0x2776, 0x2793), (0x2C00, 0x2CE4), (0x2CEB, 0x2CEE), (0x2CF2, 0x2CF3),
     (0x2CFD, 0x2CFD), (0x2D00, 0x2D25), (0x2D27, 0x2D27), (0x2D2D, 0x2D2D), (0x2D30, 0x2D67),
     (0x2D6F, 0x2D6F), (0x2D80, 0x2D96), (0x2DA0, 0x2DA6), (0x2DA8, 0x2DAE), (0x2DB0, 0x2DB6),
     (0x2DB8, 0x2DBE), (0x2DC0, 0x2DC6), (0x2DC8, 0x2DCE), (0x2DD0, 0x2DD6), (0x2DD8, 0x2DDE),
     (0x2E2F, 0x2E2F), (0x3005, 0x3007), (0x3021, 0x3029), (0x3031, 0x3035)]"

definition alnum_ranges_6 :: "(int \<times> int) list" where
  "alnum_ranges_6 =
    [(0x3038, 0x303C), (0x3041, 0x3096), (0x309D, 0x309F), (0x30A1, 0x30FA), (0x30FC, 0x30FF),
     (0x3105, 0x312F), (0x3131, 0x318E), (0x3192, 0x3195), (0x31A0, 0x31BF), (0x31F0, 0x31FF),
     (0x3220, 0x3229), (0x3248, 0x324F), (0x3251, 0x325F), (0x3280, 0x3289), (0x32B1, 0x32BF),
     (0x3400, 0x4DBF), (0x4E00, 0xA48C), (0xA4D0, 0xA4FD), (0xA500, 0xA60C), (0xA610, 0xA62B),
     (0xA640, 0xA66E), (0xA67F, 0xA69D), (0xA6A0, 0xA6EF), (0xA717, 0xA71F), (0xA722, 0xA788),
     (0xA78B, 0xA7CA), (0xA7D0, 0xA7D1), (0xA7D3, 0xA7D3), (0xA7D5, 0xA7D9), (0xA7F2, 0xA801),
     (0xA803, 0xA805), (0xA807, 0xA80A), (0xA80C, 0xA822), (0xA830, 0xA835), (0xA840, 0xA873),
     (0xA882, 0xA8B3), (0xA8D0, 0xA8D9), (0xA8F2, 0xA8F7), (0xA8FB, 0xA8FB), (0xA8FD, 0xA8FE),
     (0xA900, 0xA925), (0xA930, 0xA946), (0xA960, 0xA97C), (0xA984, 0xA9B2), (0xA9CF, 0xA9D9),
     (0xA9E0, 0xA9E4), (0xA9E6, 0xA9FE), (0xAA00, 0xAA28), (0xAA40, 0xAA42), (0xAA44, 0xAA4B),
     (0xAA50, 0xAA59), (0xAA60, 0xAA76), (0xAA7A, 0xAA7A), (0xAA7E, 0xAAAF), (0xAAB1, 0xAAB1),
     (0xAAB5, 0xAAB6), (0xAAB9, 0xAABD), (0xAAC0, 0xAAC0), (0xAAC2, 0xAAC2), (0xAADB, 0xAADD),
     (0xAAE0, 0xAAEA), (0xAAF2, 0xAAF4), (0xAB01, 0xAB06), (0xAB09, 0xAB0E)]"

definition alnum_ranges_7 :: "(int \<times> int) list" where
  "alnum_ranges_7 =
    [(0xAB11, 0xAB16), (0xAB20, 0xAB26), (0xAB28, 0xAB2E), (0xAB30, 0xAB5A), (0xAB5C, 0xAB69),
     (0xAB70, 0xABE2), (0xABF0, 0xABF9), (0xAC00, 0xD7A3), (0xD7B0, 0xD7C6), (0xD7CB, 0xD7FB),
     (0xF900, 0xFA6D), (0xFA70, 0xFAD9), (0xFB00, 0xFB06), (0xFB13, 0xFB17), (0xFB1D, 0xFB1D),
     (0xFB1F, 0xFB28), (0xFB2A, 0xFB36), (0xFB38, 0xFB3C), (0xFB3E, 0xFB3E), (0xFB40, 0xFB41),
     (0xFB43, 0xFB44), (0xFB46, 0xFBB1), (0xFBD3, 0xFD3D), (0xFD50, 0xFD8F), (0xFD92, 0xFDC7),
     (0xFDF0, 0xFDFB), (0xFE70, 0xFE74), (0xFE76, 0xFEFC), (0xFF10, 0xFF19), (0xFF21, 0xFF3A),
     (0xFF41, 0xFF5A), (0xFF66, 0xFFBE), (0xFFC2, 0xFFC7), (0xFFCA, 0xFFCF), (0xFFD2, 0xFFD7),
     (0xFFDA, 0xFFDC), (0x10000, 0x1000B), (0x1000D, 0x10026), (0x10028, 0x1003A),
     (0x1003C, 0x1003D), (0x1003F, 0x1004D), (0x10050, 0x1005D), (0x10080, 0x100FA),
     (0x10107, 0x10133), (0x10140, 0x10178), (0x1018A, 0x1018B), (0x10280, 0x1029C),
     (0x102A0, 0x102D0), (0x102E1, 0x102FB), (0x10300, 0x10323), (0x1032D, 0x1034A),
     (0x10350, 0x10375), (0x10380, 0x1039D), (0x103A0, 0x103C3), (0x103C8, 0x103CF),
     (0x103D1, 0x103D5), (0x10400, 0x1049D), (0x104A0, 0x104A9), (0x104B0, 0x104D3),
     (0x104D8, 0x104FB), (0x10500, 0x10527), (0x10530, 0x10563), (0x10570, 0x1057A),
     (0x1057C, 0x1058A)]"

definition alnum_ranges_8 :: "(int \<times> int) list" where
  "alnum_ranges_8 =
    [(0x1058C, 0x10592), (0x10594, 0x10595), (0x10597, 0x105A1), (0x105A3, 0x105B1),
     (0x105B3, 0x105B9), (0x105BB, 0x105BC), (0x10600, 0x10736), (0x10740, 0x10755),
     (0x10760, 0x10767), (0x10780, 0x10785), (0x10787, 0x107B0), (0x107B2, 0x107BA),
     (0x10800, 0x10805), (0x10808, 0x10808), (0x1080A, 0x10835), (0x10837, 0x10838),
     (0x1083C, 0x1083C), (0x1083F, 0x10855), (0x10858, 0x10876), (0x10879, 0x1089E),
     (0x108A7, 0x108AF), (0x108E0, 0x108F2), (0x108F4, 0x108F5), (0x108FB, 0x1091B),
     (0x10920, 0x10939), (0x10980, 0x109B7), (0x109BC, 0x109CF), (0x109D2, 0x10A00),
     (0x10A10, 0x10A13), (0x10A15, 0x10A17), (0x10A19, 0x10A35), (0x10A40, 0x10A48),
     (0x10A60, 0x10A7E), (0x10A80, 0x10A9F), (0x10AC0, 0x10AC7), (0x10AC9, 0x10AE4),
     (0x10AEB, 0x10AEF), (0x10B00, 0x10B35), (0x10B40, 0x10B55), (0x10B58, 0x10B72),
     (0x10B78, 0x10B91), (0x10BA9, 0x10BAF), (0x10C00, 0x10C48), (0x10C80, 0x10CB2),
     (0x10CC0, 0x10CF2), (0x10CFA, 0x10D23), (0x10D30, 0x10D39), (0x10E60, 0x10E7E),
     (0x10E80, 0x10EA9), (0x10EB0, 0x10EB1), (0x10F00, 0x10F27), (0x10F30, 0x10F45),
     (0x10F51, 0x10F54), (0x10F70, 0x10F81), (0x10FB0, 0x10FCB), (0x10FE0, 0x10FF6),
     (0x11003, 0x11037), (0x11052, 0x1106F), (0x11071, 0x11072), (0x11075, 0x11075),
     (0x11083, 0x110AF), (0x110D0, 0x110E8), (0x110F0, 0x110F9), (0x11103, 0x11126)]"

definition alnum_ranges_9 :: "(int \<times> int) list" where
  "alnum_ranges_9 =
    [(0x11136, 0x1113F), (0x11144, 0x11144), (0x11147, 0x11147), (0x11150, 0x11172),
     (0x11176, 0x11176), (0x11183, 0x111B2), (0x111C1, 0x111C4), (0x111D0, 0x111DA),
     (0x111DC, 0x111DC), (0x111E1, 0x111F4), (0x11200, 0x11211), (0x11213, 0x1122B),
     (0x11280, 0x11286), (0x11288, 0x11288), (0x1128A, 0x1128D), (0x1128F, 0x1129D),
     (0x1129F, 0x112A8), (0x112B0, 0x112DE), (0x112F0, 0x112F9), (0x11305, 0x1130C),
     (0x1130F, 0x11310), (0x11313, 0x11328), (0x1132A, 0x11330), (0x11332, 0x11333),
     (0x11335, 0x11339), (0x1133D, 0x1133D), (0x11350, 0x11350), (0x1135D, 0x11361),
     (0x11400, 0x11434), (0x11447, 0x1144A), (0x11450, 0x11459), (0x1145F, 0x11461),
     (0x11480, 0x114AF), (0x114C4, 0x114C5), (0x114C7, 0x114C7), (0x114D0, 0x114D9),
     (0x11580, 0x115AE), (0x115D8, 0x115DB), (0x11600, 0x1162F), (0x11644, 0x11644),
     (0x11650, 0x11659), (0x11680, 0x116AA), (0x116B8, 0x116B8), (0x116C0, 0x116C9),
     (0x11700, 0x1171A), (0x11730, 0x1173B), (0x11740, 0x11746), (0x11800, 0x1182B),
     (0x118A0, 0x118F2), (0x118FF, 0x11906), (0x11909, 0x11909), (0x1190C, 0x11913),
     (0x11915, 0x11916), (0x11918, 0x1192F), (0x1193F, 0x1193F), (0x11941, 0x11941),
     (0x11950, 0x11959), (0x119A0, 0x119A7), (0x119AA, 0x119D0), (0x119E1, 0x119E1),
     (0x119E3, 0x119E3), (0x11A00, 0x11A00), (0x11A0B, 0x11A32), (0x11A3A, 0x11A3A)]"

definition alnum_ranges_10 :: "(int \<times> int) list" where
  "alnum_ranges_10 =
    [(0x11A50, 0x11A50), (0x11A5C, 0x11A89), (0x11A9D, 0x11A9D), (0x11AB0, 0x11AF8),
     (0x11C00, 0x11C08), (0x11C0A, 0x11C2E), (0x11C40, 0x11C40), (0x11C50, 0x11C6C),
     (0x11C72, 0x11C8F), (0x11D00, 0x11D06), (0x11D08, 0x11D09), (0x11D0B, 0x11D30),
     (0x11D46, 0x11D46), (0x11D50, 0x11D59), (0x11D60, 0x11D65), (0x11D67, 0x11D68),
     (0x11D6A, 0x11D89), (0x11D98, 0x11D98), (0x11DA0, 0x11DA9), (0x11EE0, 0x11EF2),
     (0x11FB0, 0x11FB0), (0x11FC0, 0x11FD4), (0x12000, 0x12399), (0x12400, 0x1246E),
     (0x12480, 0x12543), (0x12F90, 0x12FF0), (0x13000, 0x1342E), (0x14400, 0x14646),
     (0x16800, 0x16A38), (0x16A40, 0x16A5E), (0x16A60, 0x16A69), (0x16A70, 0x16ABE),
     (0x16AC0, 0x16AC9), (0x16AD0, 0x16AED), (0x16B00, 0x16B2F), (0x16B40, 0x16B43),
     (0x16B50, 0x16B59), (0x16B5B, 0x16B61), (0x16B63, 0x16B77), (0x16B7D, 0x16B8F),
     (0x16E40, 0x16E96), (0x16F00, 0x16F4A), (0x16F50, 0x16F50), (0x16F93, 0x16F9F),
     (0x16FE0, 0x16FE1), (0x16FE3, 0x16FE3), (0x17000, 0x187F7), (0x18800, 0x18CD5),
     (0x18D00, 0x18D08), (0x1AFF0, 0x1AFF3), (0x1AFF5, 0x1AFFB), (0x1AFFD, 0x1AFFE),
     (0x1B000, 0x1B122), (0x1B150, 0x1B152), (0x1B164, 0x1B167), (0x1B170, 0x1B2FB),
     (0x1BC00, 0x1BC6A), (0x1BC70, 0x1BC7C), (0x1BC80, 0x1BC88), (0x1BC90, 0x1BC99),
     (0x1D2E0, 0x1D2F3), (0x1D360, 0x1D378), (0x1D400, 0x1D454), (0x1D456, 0x1D49C)]"

definition alnum_ranges_11 :: "(int \<times> int) list" where
  "alnum_ranges_11 =
    [(0x1D49E, 0x1D49F), (0x1D4A2, 0x1D4A2), (0x1D4A5, 0x1D4A6), (0x1D4A9, 0x1D4AC),
     (0x1D4AE, 0x1D4B9), (0x1D4BB, 0x1D4BB), (0x1D4BD, 0x1D4C3), (0x1D4C5, 0x1D505),
     (0x1D507, 0x1D50A), (0x1D50D, 0x1D514), (0x1D516, 0x1D51C), (0x1D51E, 0x1D539),
     (0x1D53B, 0x1D53E), (0x1D540, 0x1D544), (0x1D546, 0x1D546), (0x1D54A, 0x1D550),
     (0x1D552, 0x1D6A5), (0x1D6A8, 0x1D6C0), (0x1D6C2, 0x1D6DA), (0x1D6DC, 0x1D6FA),
     (0x1D6FC, 0x1D714), (0x1D716, 0x1D734), (0x1D736, 0x1D74E), (0x1D750, 0x1D76E),
     (0x1D770, 0x1D788), (0x1D78A, 0x1D7A8), (0x1D7AA, 0x1D7C2), (0x1D7C4, 0x1D7CB),
     (0x1D7CE, 0x1D7FF), (0x1DF00, 0x1DF1E), (0x1E100, 0x1E12C), (0x1E137, 0x1E13D),
     (0x1E140, 0x1E149), (0x1E14E, 0x1E14E), (0x1E290, 0x1E2AD), (0x1E2C0, 0x1E2EB),
     (0x1E2F0, 0x1E2F9), (0x1E7E0, 0x1E7E6), (0x1E7E8, 0x1E7EB), (0x1E7ED, 0x1E7EE),
     (0x1E7F0, 0x1E7FE), (0x1E800, 0x1E8C4), (0x1E8C7, 0x1E8CF), (0x1E900, 0x1E943),
     (0x1E94B, 0x1E94B), (0x1E950, 0x1E959), (0x1EC71, 0x1ECAB), (0x1ECAD, 0x1ECAF),
     (0x1ECB1, 0x1ECB4), (0x1ED01, 0x1ED2D), (0x1ED2F, 0x1ED3D), (0x1EE00, 0x1EE03),
     (0x1EE05, 0x1EE1F), (0x1EE21, 0x1EE22), (0x1EE24, 0x1EE24), (0x1EE27, 0x1EE27),
     (0x1EE29, 0x1EE32), (0x1EE34, 0x1EE37), (0x1EE39, 0x1EE39), (0x1EE3B, 0x1EE3B),
     (0x1EE42, 0x1EE42), (0x1EE47, 0x1EE47), (0x1EE49, 0x1EE49), (0x1EE4B, 0x1EE4B)]"

definition alnum_ranges_12 :: "(int \<times> int) list" where
  "alnum_ranges_12 =
    [(0x1EE4D, 0x1EE4F), (0x1EE51, 0x1EE52), (0x1EE54, 0x1EE54), (0x1EE57, 0x1EE57),
     (0x1EE59, 0x1EE59), (0x1EE5B, 0x1EE5B), (0x1EE5D, 0x1EE5D), (0x1EE5F, 0x1EE5F),
     (0x1EE61, 0x1EE62), (0x1EE64, 0x1EE64), (0x1EE67, 0x1EE6A), (0x1EE6C, 0x1EE72),
     (0x1EE74, 0x1EE77), (0x1EE79, 0x1EE7C), (0x1EE7E, 0x1EE7E), (0x1EE80, 0x1EE89),
     (0x1EE8B, 0x1EE9B), (0x1EEA1, 0x1EEA3), (0x1EEA5, 0x1EEA9), (0x1EEAB, 0x1EEBB),
     (0x1F100, 0x1F10C), (0x1FBF0, 0x1FBF9), (0x20000, 0x2A6DF), (0x2A700, 0x2B738),
     (0x2B740, 0x2B81D), (0x2B820, 0x2CEA1), (0x2CEB0, 0x2EBE0), (0x2F800, 0x2FA1D),
     (0x30000, 0x3134A)]"

definition alnum_ranges :: "(int \<times> int) list list" where
  "alnum_ranges =
    [alnum_ranges_1, alnum_ranges_2, alnum_ranges_3, alnum_ranges_4, alnum_ranges_5,
     alnum_ranges_6, alnum_ranges_7, alnum_ranges_8, alnum_ranges_9, alnum_ranges_10,
     alnum_ranges_11, alnum_ranges_12]"

text \<open>The code points with the property Cased.\<close>

definition cased_ranges_1 :: "(int \<times> int) list" where
  "cased_ranges_1 =
    [(0x41, 0x5A), (0x61, 0x7A), (0xAA, 0xAA), (0xB5, 0xB5), (0xBA, 0xBA), (0xC0, 0xD6),
     (0xD8, 0xF6), (0xF8, 0x1BA), (0x1BC, 0x1BF), (0x1C4, 0x293), (0x295, 0x2B8),
     (0x2C0, 0x2C1), (0x2E0, 0x2E4), (0x345, 0x345), (0x370, 0x373), (0x376, 0x377),
     (0x37A, 0x37D), (0x37F, 0x37F), (0x386, 0x386), (0x388, 0x38A), (0x38C, 0x38C),
     (0x38E, 0x3A1), (0x3A3, 0x3F5), (0x3F7, 0x481), (0x48A, 0x52F), (0x531, 0x556),
     (0x560, 0x588), (0x10A0, 0x10C5), (0x10C7, 0x10C7), (0x10CD, 0x10CD), (0x10D0, 0x10FA),
     (0x10FD, 0x10FF), (0x13A0, 0x13F5), (0x13F8, 0x13FD), (0x1C80, 0x1C88), (0x1C90, 0x1CBA),
     (0x1CBD, 0x1CBF), (0x1D00, 0x1DBF), (0x1E00, 0x1F15), (0x1F18, 0x1F1D), (0x1F20, 0x1F45),
     (0x1F48, 0x1F4D), (0x1F50, 0x1F57), (0x1F59, 0x1F59), (0x1F5B, 0x1F5B), (0x1F5D, 0x1F5D),
     (0x1F5F, 0x1F7D), (0x1F80, 0x1FB4), (0x1FB6, 0x1FBC), (0x1FBE, 0x1FBE), (0x1FC2, 0x1FC4),
     (0x1FC6, 0x1FCC), (0x1FD0, 0x1FD3), (0x1FD6, 0x1FDB), (0x1FE0, 0x1FEC), (0x1FF2, 0x1FF4),
     (0x1FF6, 0x1FFC), (0x2071, 0x2071), (0x207F, 0x207F), (0x2090, 0x209C), (0x2102, 0x2102),
     (0x2107, 0x2107), (0x210A, 0x2113), (0x2115, 0x2115)]"

definition cased_ranges_2 :: "(int \<times> int) list" where
  "cased_ranges_2 =
    [(0x2119, 0x211D), (0x2124, 0x2124), (0x2126, 0x2126), (0x2128, 0x2128), (0x212A, 0x212D),
     (0x212F, 0x2134), (0x2139, 0x2139), (0x213C, 0x213F), (0x2145, 0x2149), (0x214E, 0x214E),
     (0x2160, 0x217F), (0x2183, 0x2184), (0x24B6, 0x24E9), (0x2C00, 0x2CE4), (0x2CEB, 0x2CEE),
     (0x2CF2, 0x2CF3), (0x2D00, 0x2D25), (0x2D27, 0x2D27), (0x2D2D, 0x2D2D), (0xA640, 0xA66D),
     (0xA680, 0xA69D), (0xA722, 0xA787), (0xA78B, 0xA78E), (0xA790, 0xA7CA), (0xA7D0, 0xA7D1),
     (0xA7D3, 0xA7D3), (0xA7D5, 0xA7D9), (0xA7F5, 0xA7F6), (0xA7F8, 0xA7FA), (0xAB30, 0xAB5A),
     (0xAB5C, 0xAB68), (0xAB70, 0xABBF), (0xFB00, 0xFB06), (0xFB13, 0xFB17), (0xFF21, 0xFF3A),
     (0xFF41, 0xFF5A), (0x10400, 0x1044F), (0x104B0, 0x104D3), (0x104D8, 0x104FB),
     (0x10570, 0x1057A), (0x1057C, 0x1058A), (0x1058C, 0x10592), (0x10594, 0x10595),
     (0x10597, 0x105A1), (0x105A3, 0x105B1), (0x105B3, 0x105B9), (0x105BB, 0x105BC),
     (0x10780, 0x10780), (0x10783, 0x10785), (0x10787, 0x107B0), (0x107B2, 0x107BA),
     (0x10C80, 0x10CB2), (0x10CC0, 0x10CF2), (0x118A0, 0x118DF), (0x16E40, 0x16E7F),
     (0x1D400, 0x1D454), (0x1D456, 0x1D49C), (0x1D49E, 0x1D49F), (0x1D4A2, 0x1D4A2),
     (0x1D4A5, 0x1D4A6), (0x1D4A9, 0x1D4AC), (0x1D4AE, 0x1D4B9), (0x1D4BB, 0x1D4BB),
     (0x1D4BD, 0x1D4C3)]"

definition cased_ranges_3 :: "(int \<times> int) list" where
  "cased_ranges_3 =
    [(0x1D4C5, 0x1D505), (0x1D507, 0x1D50A), (0x1D50D, 0x1D514), (0x1D516, 0x1D51C),
     (0x1D51E, 0x1D539), (0x1D53B, 0x1D53E), (0x1D540, 0x1D544), (0x1D546, 0x1D546),
     (0x1D54A, 0x1D550), (0x1D552, 0x1D6A5), (0x1D6A8, 0x1D6C0), (0x1D6C2, 0x1D6DA),
     (0x1D6DC, 0x1D6FA), (0x1D6FC, 0x1D714), (0x1D716, 0x1D734), (0x1D736, 0x1D74E),
     (0x1D750, 0x1D76E), (0x1D770, 0x1D788), (0x1D78A, 0x1D7A8), (0x1D7AA, 0x1D7C2),
     (0x1D7C4, 0x1D7CB), (0x1DF00, 0x1DF09), (0x1DF0B, 0x1DF1E), (0x1E900, 0x1E943),
     (0x1F130, 0x1F149), (0x1F150, 0x1F169), (0x1F170, 0x1F189)]"

definition cased_ranges :: "(int \<times> int) list list" where
  "cased_ranges =
    [cased_ranges_1, cased_ranges_2, cased_ranges_3]"

text \<open>The code points with the property Case-Ignorable.\<close>

definition case_ignorable_ranges_1 :: "(int \<times> int) list" where
  "case_ignorable_ranges_1 =
    [(0x27, 0x27), (0x2E, 0x2E), (0x3A, 0x3A), (0x5E, 0x5E), (0x60, 0x60), (0xA8, 0xA8),
     (0xAD, 0xAD), (0xAF, 0xAF), (0xB4, 0xB4), (0xB7, 0xB8), (0x2B0, 0x36F), (0x374, 0x375),
     (0x37A, 0x37A), (0x384, 0x385), (0x387, 0x387), (0x483, 0x489), (0x559, 0x559),
     (0x55F, 0x55F), (0x591, 0x5BD), (0x5BF, 0x5BF), (0x5C1, 0x5C2), (0x5C4, 0x5C5),
     (0x5C7, 0x5C7), (0x5F4, 0x5F4), (0x600, 0x605), (0x610, 0x61A), (0x61C, 0x61C),
     (0x640, 0x640), (0x64B, 0x65F), (0x670, 0x670), (0x6D6, 0x6DD), (0x6DF, 0x6E8),
     (0x6EA, 0x6ED), (0x70F, 0x70F), (0x711, 0x711), (0x730, 0x74A), (0x7A6, 0x7B0),
     (0x7EB, 0x7F5), (0x7FA, 0x7FA), (0x7FD, 0x7FD), (0x816, 0x82D), (0x859, 0x85B),
     (0x888, 0x888), (0x890, 0x891), (0x898, 0x89F), (0x8C9, 0x902), (0x93A, 0x93A),
     (0x93C, 0x93C), (0x941, 0x948), (0x94D, 0x94D), (0x951, 0x957), (0x962, 0x963),
     (0x971, 0x971), (0x981, 0x981), (0x9BC, 0x9BC), (0x9C1, 0x9C4), (0x9CD, 0x9CD),
     (0x9E2, 0x9E3), (0x9FE, 0x9FE), (0xA01, 0xA02), (0xA3C, 0xA3C), (0xA41, 0xA42),
     (0xA47, 0xA48), (0xA4B, 0xA4D)]"

definition case_ignorable_ranges_2 :: "(int \<times> int) list" where
  "case_ignorable_ranges_2 =
    [(0xA51, 0xA51), (0xA70, 0xA71), (0xA75, 0xA75), (0xA81, 0xA82), (0xABC, 0xABC),
     (0xAC1, 0xAC5), (0xAC7, 0xAC8), (0xACD, 0xACD), (0xAE2, 0xAE3), (0xAFA, 0xAFF),
     (0xB01, 0xB01), (0xB3C, 0xB3C), (0xB3F, 0xB3F), (0xB41, 0xB44), (0xB4D, 0xB4D),
     (0xB55, 0xB56), (0xB62, 0xB63), (0xB82, 0xB82), (0xBC0, 0xBC0), (0xBCD, 0xBCD),
     (0xC00, 0xC00), (0xC04, 0xC04), (0xC3C, 0xC3C), (0xC3E, 0xC40), (0xC46, 0xC48),
     (0xC4A, 0xC4D), (0xC55, 0xC56), (0xC62, 0xC63), (0xC81, 0xC81), (0xCBC, 0xCBC),
     (0xCBF, 0xCBF), (0xCC6, 0xCC6), (0xCCC, 0xCCD), (0xCE2, 0xCE3), (0xD00, 0xD01),
     (0xD3B, 0xD3C), (0xD41, 0xD44), (0xD4D, 0xD4D), (0xD62, 0xD63), (0xD81, 0xD81),
     (0xDCA, 0xDCA), (0xDD2, 0xDD4), (0xDD6, 0xDD6), (0xE31, 0xE31), (0xE34, 0xE3A),
     (0xE46, 0xE4E), (0xEB1, 0xEB1), (0xEB4, 0xEBC), (0xEC6, 0xEC6), (0xEC8, 0xECD),
     (0xF18, 0xF19), (0xF35, 0xF35), (0xF37, 0xF37), (0xF39, 0xF39), (0xF71, 0xF7E),
     (0xF80, 0xF84), (0xF86, 0xF87), (0xF8D, 0xF97), (0xF99, 0xFBC), (0xFC6, 0xFC6),
     (0x102D, 0x1030), (0x1032, 0x1037), (0x1039, 0x103A), (0x103D, 0x103E)]"

definition case_ignorable_ranges_3 :: "(int \<times> int) list" where
  "case_ignorable_ranges_3 =
    [(0x1058, 0x1059), (0x105E, 0x1060), (0x1071, 0x1074), (0x1082, 0x1082), (0x1085, 0x1086),
     (0x108D, 0x108D), (0x109D, 0x109D), (0x10FC, 0x10FC), (0x135D, 0x135F), (0x1712, 0x1714),
     (0x1732, 0x1733), (0x1752, 0x1753), (0x1772, 0x1773), (0x17B4, 0x17B5), (0x17B7, 0x17BD),
     (0x17C6, 0x17C6), (0x17C9, 0x17D3), (0x17D7, 0x17D7), (0x17DD, 0x17DD), (0x180B, 0x180F),
     (0x1843, 0x1843), (0x1885, 0x1886), (0x18A9, 0x18A9), (0x1920, 0x1922), (0x1927, 0x1928),
     (0x1932, 0x1932), (0x1939, 0x193B), (0x1A17, 0x1A18), (0x1A1B, 0x1A1B), (0x1A56, 0x1A56),
     (0x1A58, 0x1A5E), (0x1A60, 0x1A60), (0x1A62, 0x1A62), (0x1A65, 0x1A6C), (0x1A73, 0x1A7C),
     (0x1A7F, 0x1A7F), (0x1AA7, 0x1AA7), (0x1AB0, 0x1ACE), (0x1B00, 0x1B03), (0x1B34, 0x1B34),
     (0x1B36, 0x1B3A), (0x1B3C, 0x1B3C), (0x1B42, 0x1B42), (0x1B6B, 0x1B73), (0x1B80, 0x1B81),
     (0x1BA2, 0x1BA5), (0x1BA8, 0x1BA9), (0x1BAB, 0x1BAD), (0x1BE6, 0x1BE6), (0x1BE8, 0x1BE9),
     (0x1BED, 0x1BED), (0x1BEF, 0x1BF1), (0x1C2C, 0x1C33), (0x1C36, 0x1C37), (0x1C78, 0x1C7D),
     (0x1CD0, 0x1CD2), (0x1CD4, 0x1CE0), (0x1CE2, 0x1CE8), (0x1CED, 0x1CED), (0x1CF4, 0x1CF4),
     (0x1CF8, 0x1CF9), (0x1D2C, 0x1D6A), (0x1D78, 0x1D78), (0x1D9B, 0x1DFF)]"

definition case_ignorable_ranges_4 :: "(int \<times> int) list" where
  "case_ignorable_ranges_4 =
    [(0x1FBD, 0x1FBD), (0x1FBF, 0x1FC1), (0x1FCD, 0x1FCF), (0x1FDD, 0x1FDF), (0x1FED, 0x1FEF),
     (0x1FFD, 0x1FFE), (0x200B, 0x200F), (0x2018, 0x2019), (0x2024, 0x2024), (0x2027, 0x2027),
     (0x202A, 0x202E), (0x2060, 0x2064), (0x2066, 0x206F), (0x2071, 0x2071), (0x207F, 0x207F),
     (0x2090, 0x209C), (0x20D0, 0x20F0), (0x2C7C, 0x2C7D), (0x2CEF, 0x2CF1), (0x2D6F, 0x2D6F),
     (0x2D7F, 0x2D7F), (0x2DE0, 0x2DFF), (0x2E2F, 0x2E2F), (0x3005, 0x3005), (0x302A, 0x302D),
     (0x3031, 0x3035), (0x303B, 0x303B), (0x3099, 0x309E), (0x30FC, 0x30FE), (0xA015, 0xA015),
     (0xA4F8, 0xA4FD), (0xA60C, 0xA60C), (0xA66F, 0xA672), (0xA674, 0xA67D), (0xA67F, 0xA67F),
     (0xA69C, 0xA69F), (0xA6F0, 0xA6F1), (0xA700, 0xA721), (0xA770, 0xA770), (0xA788, 0xA78A),
     (0xA7F2, 0xA7F4), (0xA7F8, 0xA7F9), (0xA802, 0xA802), (0xA806, 0xA806), (0xA80B, 0xA80B),
     (0xA825, 0xA826), (0xA82C, 0xA82C), (0xA8C4, 0xA8C5), (0xA8E0, 0xA8F1), (0xA8FF, 0xA8FF),
     (0xA926, 0xA92D), (0xA947, 0xA951), (0xA980, 0xA982), (0xA9B3, 0xA9B3), (0xA9B6, 0xA9B9),
     (0xA9BC, 0xA9BD), (0xA9CF, 0xA9CF), (0xA9E5, 0xA9E6), (0xAA29, 0xAA2E), (0xAA31, 0xAA32),
     (0xAA35, 0xAA36), (0xAA43, 0xAA43), (0xAA4C, 0xAA4C), (0xAA70, 0xAA70)]"

definition case_ignorable_ranges_5 :: "(int \<times> int) list" where
  "case_ignorable_ranges_5 =
    [(0xAA7C, 0xAA7C), (0xAAB0, 0xAAB0), (0xAAB2, 0xAAB4), (0xAAB7, 0xAAB8), (0xAABE, 0xAABF),
     (0xAAC1, 0xAAC1), (0xAADD, 0xAADD), (0xAAEC, 0xAAED), (0xAAF3, 0xAAF4), (0xAAF6, 0xAAF6),
     (0xAB5B, 0xAB5F), (0xAB69, 0xAB6B), (0xABE5, 0xABE5), (0xABE8, 0xABE8), (0xABED, 0xABED),
     (0xFB1E, 0xFB1E), (0xFBB2, 0xFBC2), (0xFE00, 0xFE0F), (0xFE13, 0xFE13), (0xFE20, 0xFE2F),
     (0xFE52, 0xFE52), (0xFE55, 0xFE55), (0xFEFF, 0xFEFF), (0xFF07, 0xFF07), (0xFF0E, 0xFF0E),
     (0xFF1A, 0xFF1A), (0xFF3E, 0xFF3E), (0xFF40, 0xFF40), (0xFF70, 0xFF70), (0xFF9E, 0xFF9F),
     (0xFFE3, 0xFFE3), (0xFFF9, 0xFFFB), (0x101FD, 0x101FD), (0x102E0, 0x102E0),
     (0x10376, 0x1037A), (0x10780, 0x10785), (0x10787, 0x107B0), (0x107B2, 0x107BA),
     (0x10A01, 0x10A03), (0x10A05, 0x10A06), (0x10A0C, 0x10A0F), (0x10A38, 0x10A3A),
     (0x10A3F, 0x10A3F), (0x10AE5, 0x10AE6), (0x10D24, 0x10D27), (0x10EAB, 0x10EAC),
     (0x10F46, 0x10F50), (0x10F82, 0x10F85), (0x11001, 0x11001), (0x11038, 0x11046),
     (0x11070, 0x11070), (0x11073, 0x11074), (0x1107F, 0x11081), (0x110B3, 0x110B6),
     (0x110B9, 0x110BA), (0x110BD, 0x110BD), (0x110C2, 0x110C2), (0x110CD, 0x110CD),
     (0x11100, 0x11102), (0x11127, 0x1112B), (0x1112D, 0x11134), (0x11173, 0x11173),
     (0x11180, 0x11181), (0x111B6, 0x111BE)]"

definition case_ignorable_ranges_6 :: "(int \<times> int) list" where
  "case_ignorable_ranges_6 =
    [(0x111C9, 0x111CC), (0x111CF, 0x111CF), (0x1122F, 0x11231), (0x11234, 0x11234),
     (0x11236, 0x11237), (0x1123E, 0x1123E), (0x112DF, 0x112DF), (0x112E3, 0x112EA),
     (0x11300, 0x11301), (0x1133B, 0x1133C), (0x11340, 0x11340), (0x11366, 0x1136C),
     (0x11370, 0x11374), (0x11438, 0x1143F), (0x11442, 0x11444), (0x11446, 0x11446),
     (0x1145E, 0x1145E), (0x114B3, 0x114B8), (0x114BA, 0x114BA), (0x114BF, 0x114C0),
     (0x114C2, 0x114C3), (0x115B2, 0x115B5), (0x115BC, 0x115BD), (0x115BF, 0x115C0),
     (0x115DC, 0x115DD), (0x11633, 0x1163A), (0x1163D, 0x1163D), (0x1163F, 0x11640),
     (0x116AB, 0x116AB), (0x116AD, 0x116AD), (0x116B0, 0x116B5), (0x116B7, 0x116B7),
     (0x1171D, 0x1171F), (0x11722, 0x11725), (0x11727, 0x1172B), (0x1182F, 0x11837),
     (0x11839, 0x1183A), (0x1193B, 0x1193C), (0x1193E, 0x1193E), (0x11943, 0x11943),
     (0x119D4, 0x119D7), (0x119DA, 0x119DB), (0x119E0, 0x119E0), (0x11A01, 0x11A0A),
     (0x11A33, 0x11A38), (0x11A3B, 0x11A3E), (0x11A47, 0x11A47), (0x11A51, 0x11A56),
     (0x11A59, 0x11A5B), (0x11A8A, 0x11A96), (0x11A98, 0x11A99), (0x11C30, 0x11C36),
     (0x11C38, 0x11C3D), (0x11C3F, 0x11C3F), (0x11C92, 0x11CA7), (0x11CAA, 0x11CB0),
     (0x11CB2, 0x11CB3), (0x11CB5, 0x11CB6), (0x11D31, 0x11D36), (0x11D3A, 0x11D3A),
     (0x11D3C, 0x11D3D), (0x11D3F, 0x11D45), (0x11D47, 0x11D47), (0x11D90, 0x11D91)]"

definition case_ignorable_ranges_7 :: "(int \<times> int) list" where
  "case_ignorable_ranges_7 =
    [(0x11D95, 0x11D95), (0x11D97, 0x11D97), (0x11EF3, 0x11EF4), (0x13430, 0x13438),
     (0x16AF0, 0x16AF4), (0x16B30, 0x16B36), (0x16B40, 0x16B43), (0x16F4F, 0x16F4F),
     (0x16F8F, 0x16F9F), (0x16FE0, 0x16FE1), (0x16FE3, 0x16FE4), (0x1AFF0, 0x1AFF3),
     (0x1AFF5, 0x1AFFB), (0x1AFFD, 0x1AFFE), (0x1BC9D, 0x1BC9E), (0x1BCA0, 0x1BCA3),
     (0x1CF00, 0x1CF2D), (0x1CF30, 0x1CF46), (0x1D167, 0x1D169), (0x1D173, 0x1D182),
     (0x1D185, 0x1D18B), (0x1D1AA, 0x1D1AD), (0x1D242, 0x1D244), (0x1DA00, 0x1DA36),
     (0x1DA3B, 0x1DA6C), (0x1DA75, 0x1DA75), (0x1DA84, 0x1DA84), (0x1DA9B, 0x1DA9F),
     (0x1DAA1, 0x1DAAF), (0x1E000, 0x1E006), (0x1E008, 0x1E018), (0x1E01B, 0x1E021),
     (0x1E023, 0x1E024), (0x1E026, 0x1E02A), (0x1E130, 0x1E13D), (0x1E2AE, 0x1E2AE),
     (0x1E2EC, 0x1E2EF), (0x1E8D0, 0x1E8D6), (0x1E944, 0x1E94B), (0x1F3FB, 0x1F3FF),
     (0xE0001, 0xE0001), (0xE0020, 0xE007F), (0xE0100, 0xE01EF)]"

definition case_ignorable_ranges :: "(int \<times> int) list list" where
  "case_ignorable_ranges =
    [case_ignorable_ranges_1, case_ignorable_ranges_2, case_ignorable_ranges_3,
     case_ignorable_ranges_4, case_ignorable_ranges_5, case_ignorable_ranges_6,
     case_ignorable_ranges_7]"

text \<open>The full lower case mapping: \<open>(lo, hi, step, t, ts)\<close> maps the code point \<open>lo + k * step\<close>
  up to \<open>hi\<close> to \<open>t + k * step\<close> followed by \<open>ts\<close>.\<close>

definition lower_table_1 :: "(int \<times> int \<times> int \<times> int \<times> int list) list" where
  "lower_table_1 =
    [(0x41, 0x5A, 1, 0x61, []), (0xC0, 0xD6, 1, 0xE0, []), (0xD8, 0xDE, 1, 0xF8, []),
     (0x100, 0x12E, 2, 0x101, []), (0x130, 0x130, 1, 0x69, [0x307]),
     (0x132, 0x136, 2, 0x133, []), (0x139, 0x147, 2, 0x13A, []), (0x14A, 0x176, 2, 0x14B, []),
     (0x178, 0x178, 1, 0xFF, []), (0x179, 0x17D, 2, 0x17A, []), (0x181, 0x181, 1, 0x253, []),
     (0x182, 0x184, 2, 0x183, []), (0x186, 0x186, 1, 0x254, []), (0x187, 0x187, 1, 0x188, []),
     (0x189, 0x18A, 1, 0x256, []), (0x18B, 0x18B, 1, 0x18C, []), (0x18E, 0x18E, 1, 0x1DD, []),
     (0x18F, 0x18F, 1, 0x259, []), (0x190, 0x190, 1, 0x25B, []), (0x191, 0x191, 1, 0x192, []),
     (0x193, 0x193, 1, 0x260, []), (0x194, 0x194, 1, 0x263, []), (0x196, 0x196, 1, 0x269, []),
     (0x197, 0x197, 1, 0x268, []), (0x198, 0x198, 1, 0x199, []), (0x19C, 0x19C, 1, 0x26F, []),
     (0x19D, 0x19D, 1, 0x272, []), (0x19F, 0x19F, 1, 0x275, []), (0x1A0, 0x1A4, 2, 0x1A1, []),
     (0x1A6, 0x1A6, 1, 0x280, []), (0x1A7, 0x1A7, 1, 0x1A8, []), (0x1A9, 0x1A9, 1, 0x283, []),
     (0x1AC, 0x1AC, 1, 0x1AD, []), (0x1AE, 0x1AE, 1, 0x288, []), (0x1AF, 0x1AF, 1, 0x1B0, []),
     (0x1B1, 0x1B2, 1, 0x28A, []), (0x1B3, 0x1B5, 2, 0x1B4, []), (0x1B7, 0x1B7, 1, 0x292, []),
     (0x1B8, 0x1B8, 1, 0x1B9, []), (0x1BC, 0x1BC, 1, 0x1BD, []), (0x1C4, 0x1C4, 1, 0x1C6, []),
     (0x1C5, 0x1C5, 1, 0x1C6, []), (0x1C7, 0x1C7, 1, 0x1C9, []), (0x1C8, 0x1C8, 1, 0x1C9, []),
     (0x1CA, 0x1CA, 1, 0x1CC, []), (0x1CB, 0x1DB, 2, 0x1CC, []), (0x1DE, 0x1EE, 2, 0x1DF, []),
     (0x1F1, 0x1F1, 1, 0x1F3, []), (0x1F2, 0x1F4, 2, 0x1F3, []), (0x1F6, 0x1F6, 1, 0x195, []),
     (0x1F7, 0x1F7, 1, 0x1BF, []), (0x1F8, 0x21E, 2, 0x1F9, []), (0x220, 0x220, 1, 0x19E, []),
     (0x222, 0x232, 2, 0x223, []), (0x23A, 0x23A, 1, 0x2C65, []),
     (0x23B, 0x23B, 1, 0x23C, []), (0x23D, 0x23D, 1, 0x19A, []),
     (0x23E, 0x23E, 1, 0x2C66, []), (0x241, 0x241, 1, 0x242, []),
     (0x243, 0x243, 1, 0x180, []), (0x244, 0x244, 1, 0x289, []), (0x245, 0x245, 1, 0x28C, []),
     (0x246, 0x24E, 2, 0x247, []), (0x370, 0x372, 2, 0x371, [])]"

definition lower_table_2 :: "(int \<times> int \<times> int \<times> int \<times> int list) list" where
  "lower_table_2 =
    [(0x376, 0x376, 1, 0x377, []), (0x37F, 0x37F, 1, 0x3F3, []), (0x386, 0x386, 1, 0x3AC, []),
     (0x388, 0x38A, 1, 0x3AD, []), (0x38C, 0x38C, 1, 0x3CC, []), (0x38E, 0x38F, 1, 0x3CD, []),
     (0x391, 0x3A1, 1, 0x3B1, []), (0x3A3, 0x3AB, 1, 0x3C3, []), (0x3CF, 0x3CF, 1, 0x3D7, []),
     (0x3D8, 0x3EE, 2, 0x3D9, []), (0x3F4, 0x3F4, 1, 0x3B8, []), (0x3F7, 0x3F7, 1, 0x3F8, []),
     (0x3F9, 0x3F9, 1, 0x3F2, []), (0x3FA, 0x3FA, 1, 0x3FB, []), (0x3FD, 0x3FF, 1, 0x37B, []),
     (0x400, 0x40F, 1, 0x450, []), (0x410, 0x42F, 1, 0x430, []), (0x460, 0x480, 2, 0x461, []),
     (0x48A, 0x4BE, 2, 0x48B, []), (0x4C0, 0x4C0, 1, 0x4CF, []), (0x4C1, 0x4CD, 2, 0x4C2, []),
     (0x4D0, 0x52E, 2, 0x4D1, []), (0x531, 0x556, 1, 0x561, []),
     (0x10A0, 0x10C5, 1, 0x2D00, []), (0x10C7, 0x10C7, 1, 0x2D27, []),
     (0x10CD, 0x10CD, 1, 0x2D2D, []), (0x13A0, 0x13EF, 1, 0xAB70, []),
     (0x13F0, 0x13F5, 1, 0x13F8, []), (0x1C90, 0x1CBA, 1, 0x10D0, []),
     (0x1CBD, 0x1CBF, 1, 0x10FD, []), (0x1E00, 0x1E94, 2, 0x1E01, []),
     (0x1E9E, 0x1E9E, 1, 0xDF, []), (0x1EA0, 0x1EFE, 2, 0x1EA1, []),
     (0x1F08, 0x1F0F, 1, 0x1F00, []), (0x1F18, 0x1F1D, 1, 0x1F10, []),
     (0x1F28, 0x1F2F, 1, 0x1F20, []), (0x1F38, 0x1F3F, 1, 0x1F30, []),
     (0x1F48, 0x1F4D, 1, 0x1F40, []), (0x1F59, 0x1F5F, 2, 0x1F51, []),
     (0x1F68, 0x1F6F, 1, 0x1F60, []), (0x1F88, 0x1F8F, 1, 0x1F80, []),
     (0x1F98, 0x1F9F, 1, 0x1F90, []), (0x1FA8, 0x1FAF, 1, 0x1FA0, []),
     (0x1FB8, 0x1FB9, 1, 0x1FB0, []), (0x1FBA, 0x1FBB, 1, 0x1F70, []),
     (0x1FBC, 0x1FBC, 1, 0x1FB3, []), (0x1FC8, 0x1FCB, 1, 0x1F72, []),
     (0x1FCC, 0x1FCC, 1, 0x1FC3, []), (0x1FD8, 0x1FD9, 1, 0x1FD0, []),
     (0x1FDA, 0x1FDB, 1, 0x1F76, []), (0x1FE8, 0x1FE9, 1, 0x1FE0, []),
     (0x1FEA, 0x1FEB, 1, 0x1F7A, []), (0x1FEC, 0x1FEC, 1, 0x1FE5, []),
     (0x1FF8, 0x1FF9, 1, 0x1F78, []), (0x1FFA, 0x1FFB, 1, 0x1F7C, []),
     (0x1FFC, 0x1FFC, 1, 0x1FF3, []), (0x2126, 0x2126, 1, 0x3C9, []),
     (0x212A, 0x212A, 1, 0x6B, []), (0x212B, 0x212B, 1, 0xE5, []),
     (0x2132, 0x2132, 1, 0x214E, []), (0x2160, 0x216F, 1, 0x2170, []),
     (0x2183, 0x2183, 1, 0x2184, []), (0x24B6, 0x24CF, 1, 0x24D0, []),
     (0x2C00, 0x2C2F, 1, 0x2C30, [])]"

definition lower_table_3 :: "(int \<times> int \<times> int \<times> int \<times> int list) list" where
  "lower_table_3 =
    [(0x2C60, 0x2C60, 1, 0x2C61, []), (0x2C62, 0x2C62, 1, 0x26B, []),
     (0x2C63, 0x2C63, 1, 0x1D7D, []), (0x2C64, 0x2C64, 1, 0x27D, []),
     (0x2C67, 0x2C6B, 2, 0x2C68, []), (0x2C6D, 0x2C6D, 1, 0x251, []),
     (0x2C6E, 0x2C6E, 1, 0x271, []), (0x2C6F, 0x2C6F, 1, 0x250, []),
     (0x2C70, 0x2C70, 1, 0x252, []), (0x2C72, 0x2C72, 1, 0x2C73, []),
     (0x2C75, 0x2C75, 1, 0x2C76, []), (0x2C7E, 0x2C7F, 1, 0x23F, []),
     (0x2C80, 0x2CE2, 2, 0x2C81, []), (0x2CEB, 0x2CED, 2, 0x2CEC, []),
     (0x2CF2, 0x2CF2, 1, 0x2CF3, []), (0xA640, 0xA66C, 2, 0xA641, []),
     (0xA680, 0xA69A, 2, 0xA681, []), (0xA722, 0xA72E, 2, 0xA723, []),
     (0xA732, 0xA76E, 2, 0xA733, []), (0xA779, 0xA77B, 2, 0xA77A, []),
     (0xA77D, 0xA77D, 1, 0x1D79, []), (0xA77E, 0xA786, 2, 0xA77F, []),
     (0xA78B, 0xA78B, 1, 0xA78C, []), (0xA78D, 0xA78D, 1, 0x265, []),
     (0xA790, 0xA792, 2, 0xA791, []), (0xA796, 0xA7A8, 2, 0xA797, []),
     (0xA7AA, 0xA7AA, 1, 0x266, []), (0xA7AB, 0xA7AB, 1, 0x25C, []),
     (0xA7AC, 0xA7AC, 1, 0x261, []), (0xA7AD, 0xA7AD, 1, 0x26C, []),
     (0xA7AE, 0xA7AE, 1, 0x26A, []), (0xA7B0, 0xA7B0, 1, 0x29E, []),
     (0xA7B1, 0xA7B1, 1, 0x287, []), (0xA7B2, 0xA7B2, 1, 0x29D, []),
     (0xA7B3, 0xA7B3, 1, 0xAB53, []), (0xA7B4, 0xA7C2, 2, 0xA7B5, []),
     (0xA7C4, 0xA7C4, 1, 0xA794, []), (0xA7C5, 0xA7C5, 1, 0x282, []),
     (0xA7C6, 0xA7C6, 1, 0x1D8E, []), (0xA7C7, 0xA7C9, 2, 0xA7C8, []),
     (0xA7D0, 0xA7D0, 1, 0xA7D1, []), (0xA7D6, 0xA7D8, 2, 0xA7D7, []),
     (0xA7F5, 0xA7F5, 1, 0xA7F6, []), (0xFF21, 0xFF3A, 1, 0xFF41, []),
     (0x10400, 0x10427, 1, 0x10428, []), (0x104B0, 0x104D3, 1, 0x104D8, []),
     (0x10570, 0x1057A, 1, 0x10597, []), (0x1057C, 0x1058A, 1, 0x105A3, []),
     (0x1058C, 0x10592, 1, 0x105B3, []), (0x10594, 0x10595, 1, 0x105BB, []),
     (0x10C80, 0x10CB2, 1, 0x10CC0, []), (0x118A0, 0x118BF, 1, 0x118C0, []),
     (0x16E40, 0x16E5F, 1, 0x16E60, []), (0x1E900, 0x1E921, 1, 0x1E922, [])]"

definition lower_table :: "(int \<times> int \<times> int \<times> int \<times> int list) list list" where
  "lower_table =
    [lower_table_1, lower_table_2, lower_table_3]"

text \<open>The full upper case mapping, in the same form.\<close>

definition upper_table_1 :: "(int \<times> int \<times> int \<times> int \<times> int list) list" where
  "upper_table_1 =
    [(0x61, 0x7A, 1, 0x41, []), (0xB5, 0xB5, 1, 0x39C, []), (0xDF, 0xDF, 1, 0x53, [0x53]),
     (0xE0, 0xF6, 1, 0xC0, []), (0xF8, 0xFE, 1, 0xD8, []), (0xFF, 0xFF, 1, 0x178, []),
     (0x101, 0x12F, 2, 0x100, []), (0x131, 0x131, 1, 0x49, []), (0x133, 0x137, 2, 0x132, []),
     (0x13A, 0x148, 2, 0x139, []), (0x149, 0x149, 1, 0x2BC, [0x4E]),
     (0x14B, 0x177, 2, 0x14A, []), (0x17A, 0x17E, 2, 0x179, []), (0x17F, 0x17F, 1, 0x53, []),
     (0x180, 0x180, 1, 0x243, []), (0x183, 0x185, 2, 0x182, []), (0x188, 0x188, 1, 0x187, []),
     (0x18C, 0x18C, 1, 0x18B, []), (0x192, 0x192, 1, 0x191, []), (0x195, 0x195, 1, 0x1F6, []),
     (0x199, 0x199, 1, 0x198, []), (0x19A, 0x19A, 1, 0x23D, []), (0x19E, 0x19E, 1, 0x220, []),
     (0x1A1, 0x1A5, 2, 0x1A0, []), (0x1A8, 0x1A8, 1, 0x1A7, []), (0x1AD, 0x1AD, 1, 0x1AC, []),
     (0x1B0, 0x1B0, 1, 0x1AF, []), (0x1B4, 0x1B6, 2, 0x1B3, []), (0x1B9, 0x1B9, 1, 0x1B8, []),
     (0x1BD, 0x1BD, 1, 0x1BC, []), (0x1BF, 0x1BF, 1, 0x1F7, []), (0x1C5, 0x1C5, 1, 0x1C4, []),
     (0x1C6, 0x1C6, 1, 0x1C4, []), (0x1C8, 0x1C8, 1, 0x1C7, []), (0x1C9, 0x1C9, 1, 0x1C7, []),
     (0x1CB, 0x1CB, 1, 0x1CA, []), (0x1CC, 0x1CC, 1, 0x1CA, []), (0x1CE, 0x1DC, 2, 0x1CD, []),
     (0x1DD, 0x1DD, 1, 0x18E, []), (0x1DF, 0x1EF, 2, 0x1DE, []),
     (0x1F0, 0x1F0, 1, 0x4A, [0x30C]), (0x1F2, 0x1F2, 1, 0x1F1, []),
     (0x1F3, 0x1F3, 1, 0x1F1, []), (0x1F5, 0x1F5, 1, 0x1F4, []), (0x1F9, 0x21F, 2, 0x1F8, []),
     (0x223, 0x233, 2, 0x222, []), (0x23C, 0x23C, 1, 0x23B, []),
     (0x23F, 0x240, 1, 0x2C7E, []), (0x242, 0x242, 1, 0x241, []),
     (0x247, 0x24F, 2, 0x246, []), (0x250, 0x250, 1, 0x2C6F, []),
     (0x251, 0x251, 1, 0x2C6D, []), (0x252, 0x252, 1, 0x2C70, []),
     (0x253, 0x253, 1, 0x181, []), (0x254, 0x254, 1, 0x186, []), (0x256, 0x257, 1, 0x189, []),
     (0x259, 0x259, 1, 0x18F, []), (0x25B, 0x25B, 1, 0x190, []),
     (0x25C, 0x25C, 1, 0xA7AB, []), (0x260, 0x260, 1, 0x193, []),
     (0x261, 0x261, 1, 0xA7AC, []), (0x263, 0x263, 1, 0x194, []),
     (0x265, 0x265, 1, 0xA78D, []), (0x266, 0x266, 1, 0xA7AA, [])]"

definition upper_table_2 :: "(int \<times> int \<times> int \<times> int \<times> int list) list" where
  "upper_table_2 =
    [(0x268, 0x268, 1, 0x197, []), (0x269, 0x269, 1, 0x196, []),
     (0x26A, 0x26A, 1, 0xA7AE, []), (0x26B, 0x26B, 1, 0x2C62, []),
     (0x26C, 0x26C, 1, 0xA7AD, []), (0x26F, 0x26F, 1, 0x19C, []),
     (0x271, 0x271, 1, 0x2C6E, []), (0x272, 0x272, 1, 0x19D, []),
     (0x275, 0x275, 1, 0x19F, []), (0x27D, 0x27D, 1, 0x2C64, []),
     (0x280, 0x280, 1, 0x1A6, []), (0x282, 0x282, 1, 0xA7C5, []),
     (0x283, 0x283, 1, 0x1A9, []), (0x287, 0x287, 1, 0xA7B1, []),
     (0x288, 0x288, 1, 0x1AE, []), (0x289, 0x289, 1, 0x244, []), (0x28A, 0x28B, 1, 0x1B1, []),
     (0x28C, 0x28C, 1, 0x245, []), (0x292, 0x292, 1, 0x1B7, []),
     (0x29D, 0x29D, 1, 0xA7B2, []), (0x29E, 0x29E, 1, 0xA7B0, []),
     (0x345, 0x345, 1, 0x399, []), (0x371, 0x373, 2, 0x370, []), (0x377, 0x377, 1, 0x376, []),
     (0x37B, 0x37D, 1, 0x3FD, []), (0x390, 0x390, 1, 0x399, [0x308, 0x301]),
     (0x3AC, 0x3AC, 1, 0x386, []), (0x3AD, 0x3AF, 1, 0x388, []),
     (0x3B0, 0x3B0, 1, 0x3A5, [0x308, 0x301]), (0x3B1, 0x3C1, 1, 0x391, []),
     (0x3C2, 0x3C2, 1, 0x3A3, []), (0x3C3, 0x3CB, 1, 0x3A3, []), (0x3CC, 0x3CC, 1, 0x38C, []),
     (0x3CD, 0x3CE, 1, 0x38E, []), (0x3D0, 0x3D0, 1, 0x392, []), (0x3D1, 0x3D1, 1, 0x398, []),
     (0x3D5, 0x3D5, 1, 0x3A6, []), (0x3D6, 0x3D6, 1, 0x3A0, []), (0x3D7, 0x3D7, 1, 0x3CF, []),
     (0x3D9, 0x3EF, 2, 0x3D8, []), (0x3F0, 0x3F0, 1, 0x39A, []), (0x3F1, 0x3F1, 1, 0x3A1, []),
     (0x3F2, 0x3F2, 1, 0x3F9, []), (0x3F3, 0x3F3, 1, 0x37F, []), (0x3F5, 0x3F5, 1, 0x395, []),
     (0x3F8, 0x3F8, 1, 0x3F7, []), (0x3FB, 0x3FB, 1, 0x3FA, []), (0x430, 0x44F, 1, 0x410, []),
     (0x450, 0x45F, 1, 0x400, []), (0x461, 0x481, 2, 0x460, []), (0x48B, 0x4BF, 2, 0x48A, []),
     (0x4C2, 0x4CE, 2, 0x4C1, []), (0x4CF, 0x4CF, 1, 0x4C0, []), (0x4D1, 0x52F, 2, 0x4D0, []),
     (0x561, 0x586, 1, 0x531, []), (0x587, 0x587, 1, 0x535, [0x552]),
     (0x10D0, 0x10FA, 1, 0x1C90, []), (0x10FD, 0x10FF, 1, 0x1CBD, []),
     (0x13F8, 0x13FD, 1, 0x13F0, []), (0x1C80, 0x1C80, 1, 0x412, []),
     (0x1C81, 0x1C81, 1, 0x414, []), (0x1C82, 0x1C82, 1, 0x41E, []),
     (0x1C83, 0x1C84, 1, 0x421, []), (0x1C85, 0x1C85, 1, 0x422, [])]"

definition upper_table_3 :: "(int \<times> int \<times> int \<times> int \<times> int list) list" where
  "upper_table_3 =
    [(0x1C86, 0x1C86, 1, 0x42A, []), (0x1C87, 0x1C87, 1, 0x462, []),
     (0x1C88, 0x1C88, 1, 0xA64A, []), (0x1D79, 0x1D79, 1, 0xA77D, []),
     (0x1D7D, 0x1D7D, 1, 0x2C63, []), (0x1D8E, 0x1D8E, 1, 0xA7C6, []),
     (0x1E01, 0x1E95, 2, 0x1E00, []), (0x1E96, 0x1E96, 1, 0x48, [0x331]),
     (0x1E97, 0x1E97, 1, 0x54, [0x308]), (0x1E98, 0x1E98, 1, 0x57, [0x30A]),
     (0x1E99, 0x1E99, 1, 0x59, [0x30A]), (0x1E9A, 0x1E9A, 1, 0x41, [0x2BE]),
     (0x1E9B, 0x1E9B, 1, 0x1E60, []), (0x1EA1, 0x1EFF, 2, 0x1EA0, []),
     (0x1F00, 0x1F07, 1, 0x1F08, []), (0x1F10, 0x1F15, 1, 0x1F18, []),
     (0x1F20, 0x1F27, 1, 0x1F28, []), (0x1F30, 0x1F37, 1, 0x1F38, []),
     (0x1F40, 0x1F45, 1, 0x1F48, []), (0x1F50, 0x1F50, 1, 0x3A5, [0x313]),
     (0x1F51, 0x1F51, 1, 0x1F59, []), (0x1F52, 0x1F52, 1, 0x3A5, [0x313, 0x300]),
     (0x1F53, 0x1F53, 1, 0x1F5B, []), (0x1F54, 0x1F54, 1, 0x3A5, [0x313, 0x301]),
     (0x1F55, 0x1F55, 1, 0x1F5D, []), (0x1F56, 0x1F56, 1, 0x3A5, [0x313, 0x342]),
     (0x1F57, 0x1F57, 1, 0x1F5F, []), (0x1F60, 0x1F67, 1, 0x1F68, []),
     (0x1F70, 0x1F71, 1, 0x1FBA, []), (0x1F72, 0x1F75, 1, 0x1FC8, []),
     (0x1F76, 0x1F77, 1, 0x1FDA, []), (0x1F78, 0x1F79, 1, 0x1FF8, []),
     (0x1F7A, 0x1F7B, 1, 0x1FEA, []), (0x1F7C, 0x1F7D, 1, 0x1FFA, []),
     (0x1F80, 0x1F80, 1, 0x1F08, [0x399]), (0x1F81, 0x1F81, 1, 0x1F09, [0x399]),
     (0x1F82, 0x1F82, 1, 0x1F0A, [0x399]), (0x1F83, 0x1F83, 1, 0x1F0B, [0x399]),
     (0x1F84, 0x1F84, 1, 0x1F0C, [0x399]), (0x1F85, 0x1F85, 1, 0x1F0D, [0x399]),
     (0x1F86, 0x1F86, 1, 0x1F0E, [0x399]), (0x1F87, 0x1F87, 1, 0x1F0F, [0x399]),
     (0x1F88, 0x1F88, 1, 0x1F08, [0x399]), (0x1F89, 0x1F89, 1, 0x1F09, [0x399]),
     (0x1F8A, 0x1F8A, 1, 0x1F0A, [0x399]), (0x1F8B, 0x1F8B, 1, 0x1F0B, [0x399]),
     (0x1F8C, 0x1F8C, 1, 0x1F0C, [0x399]), (0x1F8D, 0x1F8D, 1, 0x1F0D, [0x399]),
     (0x1F8E, 0x1F8E, 1, 0x1F0E, [0x399]), (0x1F8F, 0x1F8F, 1, 0x1F0F, [0x399]),
     (0x1F90, 0x1F90, 1, 0x1F28, [0x399]), (0x1F91, 0x1F91, 1, 0x1F29, [0x399]),
     (0x1F92, 0x1F92, 1, 0x1F2A, [0x399]), (0x1F93, 0x1F93, 1, 0x1F2B, [0x399]),
     (0x1F94, 0x1F94, 1, 0x1F2C, [0x399]), (0x1F95, 0x1F95, 1, 0x1F2D, [0x399]),
     (0x1F96, 0x1F96, 1, 0x1F2E, [0x399]), (0x1F97, 0x1F97, 1, 0x1F2F, [0x399]),
     (0x1F98, 0x1F98, 1, 0x1F28, [0x399]), (0x1F99, 0x1F99, 1, 0x1F29, [0x399]),
     (0x1F9A, 0x1F9A, 1, 0x1F2A, [0x399]), (0x1F9B, 0x1F9B, 1, 0x1F2B, [0x399]),
     (0x1F9C, 0x1F9C, 1, 0x1F2C, [0x399]), (0x1F9D, 0x1F9D, 1, 0x1F2D, [0x399])]"

definition upper_table_4 :: "(int \<times> int \<times> int \<times> int \<times> int list) list" where
  "upper_table_4 =
    [(0x1F9E, 0x1F9E, 1, 0x1F2E, [0x399]), (0x1F9F, 0x1F9F, 1, 0x1F2F, [0x399]),
     (0x1FA0, 0x1FA0, 1, 0x1F68, [0x399]), (0x1FA1, 0x1FA1, 1, 0x1F69, [0x399]),
     (0x1FA2, 0x1FA2, 1, 0x1F6A, [0x399]), (0x1FA3, 0x1FA3, 1, 0x1F6B, [0x399]),
     (0x1FA4, 0x1FA4, 1, 0x1F6C, [0x399]), (0x1FA5, 0x1FA5, 1, 0x1F6D, [0x399]),
     (0x1FA6, 0x1FA6, 1, 0x1F6E, [0x399]), (0x1FA7, 0x1FA7, 1, 0x1F6F, [0x399]),
     (0x1FA8, 0x1FA8, 1, 0x1F68, [0x399]), (0x1FA9, 0x1FA9, 1, 0x1F69, [0x399]),
     (0x1FAA, 0x1FAA, 1, 0x1F6A, [0x399]), (0x1FAB, 0x1FAB, 1, 0x1F6B, [0x399]),
     (0x1FAC, 0x1FAC, 1, 0x1F6C, [0x399]), (0x1FAD, 0x1FAD, 1, 0x1F6D, [0x399]),
     (0x1FAE, 0x1FAE, 1, 0x1F6E, [0x399]), (0x1FAF, 0x1FAF, 1, 0x1F6F, [0x399]),
     (0x1FB0, 0x1FB1, 1, 0x1FB8, []), (0x1FB2, 0x1FB2, 1, 0x1FBA, [0x399]),
     (0x1FB3, 0x1FB3, 1, 0x391, [0x399]), (0x1FB4, 0x1FB4, 1, 0x386, [0x399]),
     (0x1FB6, 0x1FB6, 1, 0x391, [0x342]), (0x1FB7, 0x1FB7, 1, 0x391, [0x342, 0x399]),
     (0x1FBC, 0x1FBC, 1, 0x391, [0x399]), (0x1FBE, 0x1FBE, 1, 0x399, []),
     (0x1FC2, 0x1FC2, 1, 0x1FCA, [0x399]), (0x1FC3, 0x1FC3, 1, 0x397, [0x399]),
     (0x1FC4, 0x1FC4, 1, 0x389, [0x399]), (0x1FC6, 0x1FC6, 1, 0x397, [0x342]),
     (0x1FC7, 0x1FC7, 1, 0x397, [0x342, 0x399]), (0x1FCC, 0x1FCC, 1, 0x397, [0x399]),
     (0x1FD0, 0x1FD1, 1, 0x1FD8, []), (0x1FD2, 0x1FD2, 1, 0x399, [0x308, 0x300]),
     (0x1FD3, 0x1FD3, 1, 0x399, [0x308, 0x301]), (0x1FD6, 0x1FD6, 1, 0x399, [0x342]),
     (0x1FD7, 0x1FD7, 1, 0x399, [0x308, 0x342]), (0x1FE0, 0x1FE1, 1, 0x1FE8, []),
     (0x1FE2, 0x1FE2, 1, 0x3A5, [0x308, 0x300]), (0x1FE3, 0x1FE3, 1, 0x3A5, [0x308, 0x301]),
     (0x1FE4, 0x1FE4, 1, 0x3A1, [0x313]), (0x1FE5, 0x1FE5, 1, 0x1FEC, []),
     (0x1FE6, 0x1FE6, 1, 0x3A5, [0x342]), (0x1FE7, 0x1FE7, 1, 0x3A5, [0x308, 0x342]),
     (0x1FF2, 0x1FF2, 1, 0x1FFA, [0x399]), (0x1FF3, 0x1FF3, 1, 0x3A9, [0x399]),
     (0x1FF4, 0x1FF4, 1, 0x38F, [0x399]), (0x1FF6, 0x1FF6, 1, 0x3A9, [0x342]),
     (0x1FF7, 0x1FF7, 1, 0x3A9, [0x342, 0x399]), (0x1FFC, 0x1FFC, 1, 0x3A9, [0x399]),
     (0x214E, 0x214E, 1, 0x2132, []), (0x2170, 0x217F, 1, 0x2160, []),
     (0x2184, 0x2184, 1, 0x2183, []), (0x24D0, 0x24E9, 1, 0x24B6, []),
     (0x2C30, 0x2C5F, 1, 0x2C00, []), (0x2C61, 0x2C61, 1, 0x2C60, []),
     (0x2C65, 0x2C65, 1, 0x23A, []), (0x2C66, 0x2C66, 1, 0x23E, []),
     (0x2C68, 0x2C6C, 2, 0x2C67, []), (0x2C73, 0x2C73, 1, 0x2C72, []),
     (0x2C76, 0x2C76, 1, 0x2C75, []), (0x2C81, 0x2CE3, 2, 0x2C80, []),
     (0x2CEC, 0x2CEE, 2, 0x2CEB, []), (0x2CF3, 0x2CF3, 1, 0x2CF2, [])]"

definition upper_table_5 :: "(int \<times> int \<times> int \<times> int \<times> int list) list" where
  "upper_table_5 =
    [(0x2D00, 0x2D25, 1, 0x10A0, []), (0x2D27, 0x2D27, 1, 0x10C7, []),
     (0x2D2D, 0x2D2D, 1, 0x10CD, []), (0xA641, 0xA66D, 2, 0xA640, []),
     (0xA681, 0xA69B, 2, 0xA680, []), (0xA723, 0xA72F, 2, 0xA722, []),
     (0xA733, 0xA76F, 2, 0xA732, []), (0xA77A, 0xA77C, 2, 0xA779, []),
     (0xA77F, 0xA787, 2, 0xA77E, []), (0xA78C, 0xA78C, 1, 0xA78B, []),
     (0xA791, 0xA793, 2, 0xA790, []), (0xA794, 0xA794, 1, 0xA7C4, []),
     (0xA797, 0xA7A9, 2, 0xA796, []), (0xA7B5, 0xA7C3, 2, 0xA7B4, []),
     (0xA7C8, 0xA7CA, 2, 0xA7C7, []), (0xA7D1, 0xA7D1, 1, 0xA7D0, []),
     (0xA7D7, 0xA7D9, 2, 0xA7D6, []), (0xA7F6, 0xA7F6, 1, 0xA7F5, []),
     (0xAB53, 0xAB53, 1, 0xA7B3, []), (0xAB70, 0xABBF, 1, 0x13A0, []),
     (0xFB00, 0xFB00, 1, 0x46, [0x46]), (0xFB01, 0xFB01, 1, 0x46, [0x49]),
     (0xFB02, 0xFB02, 1, 0x46, [0x4C]), (0xFB03, 0xFB03, 1, 0x46, [0x46, 0x49]),
     (0xFB04, 0xFB04, 1, 0x46, [0x46, 0x4C]), (0xFB05, 0xFB05, 1, 0x53, [0x54]),
     (0xFB06, 0xFB06, 1, 0x53, [0x54]), (0xFB13, 0xFB13, 1, 0x544, [0x546]),
     (0xFB14, 0xFB14, 1, 0x544, [0x535]), (0xFB15, 0xFB15, 1, 0x544, [0x53B]),
     (0xFB16, 0xFB16, 1, 0x54E, [0x546]), (0xFB17, 0xFB17, 1, 0x544, [0x53D]),
     (0xFF41, 0xFF5A, 1, 0xFF21, []), (0x10428, 0x1044F, 1, 0x10400, []),
     (0x104D8, 0x104FB, 1, 0x104B0, []), (0x10597, 0x105A1, 1, 0x10570, []),
     (0x105A3, 0x105B1, 1, 0x1057C, []), (0x105B3, 0x105B9, 1, 0x1058C, []),
     (0x105BB, 0x105BC, 1, 0x10594, []), (0x10CC0, 0x10CF2, 1, 0x10C80, []),
     (0x118C0, 0x118DF, 1, 0x118A0, []), (0x16E60, 0x16E7F, 1, 0x16E40, []),
     (0x1E922, 0x1E943, 1, 0x1E900, [])]"

definition upper_table :: "(int \<times> int \<times> int \<times> int \<times> int list) list list" where
  "upper_table =
    [upper_table_1, upper_table_2, upper_table_3, upper_table_4, upper_table_5]"

subsection \<open>Character classes and case mappings\<close>

definition isspace :: "int \<Rightarrow> bool" where
  "isspace c = in_table c space_ranges"

definition isdigit :: "int \<Rightarrow> bool" where
  "isdigit c = in_table c digit_ranges"

definition isalnum :: "int \<Rightarrow> bool" where
  "isalnum c = in_table c alnum_ranges"

text \<open>The class \<^verbatim>\<open>\w\<close> of the module \<^verbatim>\<open>re\<close> on a \<^verbatim>\<open>str\<close>: alphanumeric or the underscore.\<close>

definition isword :: "int \<Rightarrow> bool" where
  "isword c = (isalnum c \<or> c = of_char CHR ''_'')"

definition iscased :: "int \<Rightarrow> bool" where
  "iscased c = in_table c cased_ranges"

definition is_case_ignorable :: "int \<Rightarrow> bool" where
  "is_case_ignorable c = in_table c case_ignorable_ranges"

definition lower_full :: "int \<Rightarrow> str" where
  "lower_full c = (case lookup_table c lower_table of Some r \<Rightarrow> r | None \<Rightarrow> [c])"

definition upper_full :: "int \<Rightarrow> str" where
  "upper_full c = (case lookup_table c upper_table of Some r \<Rightarrow> r | None \<Rightarrow> [c])"

text \<open>
  \<^verbatim>\<open>str.lower\<close> maps every code point by the full lower case mapping, except the capital
  sigma (0x3A3): it becomes the final sigma (0x3C2) when the nearest code point before it
  that is not case-ignorable is cased and the nearest one after it that is not
  case-ignorable is not cased (or there is none), and the small sigma (0x3C3) otherwise.
\<close>

definition final_sigma :: "str \<Rightarrow> str \<Rightarrow> bool" where
  "final_sigma left right =
     ((case dropWhile is_case_ignorable (rev left) of [] \<Rightarrow> False | c # _ \<Rightarrow> iscased c) \<and>
      (case dropWhile is_case_ignorable right of [] \<Rightarrow> True | c # _ \<Rightarrow> \<not> iscased c))"

fun lower_loop :: "str \<Rightarrow> str \<Rightarrow> str" where
  "lower_loop left [] = []"
| "lower_loop left (c # cs) =
     (if c = 0x3A3 then [if final_sigma left cs then 0x3C2 else 0x3C3] else lower_full c)
     @ lower_loop (left @ [c]) cs"

definition str_lower :: "str \<Rightarrow> str" where
  "str_lower s = lower_loop [] s"

definition str_upper :: "str \<Rightarrow> str" where
  "str_upper s = concat (map upper_full s)"

subsection \<open>The string methods and patterns the program uses\<close>

text \<open>\<^verbatim>\<open>s.split(d)\<close> for a one-character separator: the result is never empty.\<close>

fun str_split_on :: "int \<Rightarrow> str \<Rightarrow> str \<Rightarrow> str list" where
  "str_split_on d [] cur = [cur]"
| "str_split_on d (c # cs) cur =
     (if c = d then cur # str_split_on d cs [] else str_split_on d cs (cur @ [c]))"

text \<open>\<^verbatim>\<open>s.split()\<close>: the maximal runs of characters that are not white space.\<close>

fun str_split_ws :: "str \<Rightarrow> str \<Rightarrow> str list" where
  "str_split_ws [] cur = (if cur = [] then [] else [cur])"
| "str_split_ws (c # cs) cur =
     (if isspace c then (if cur = [] then str_split_ws cs [] else cur # str_split_ws cs [])
      else str_split_ws cs (cur @ [c]))"

definition str_split :: "str \<Rightarrow> str list" where
  "str_split s = str_split_ws s []"

definition str_strip :: "str \<Rightarrow> str" where
  "str_strip s = rev (dropWhile isspace (rev (dropWhile isspace s)))"

definition str_startswith :: "str \<Rightarrow> str \<Rightarrow> bool" where
  "str_startswith s p = (take (length p) s = p)"

definition str_endswith :: "str \<Rightarrow> str \<Rightarrow> bool" where
  "str_endswith s p = (length p \<le> length s \<and> drop (length s - length p) s = p)"

text \<open>\<^verbatim>\<open>sub in s\<close>.\<close>

fun str_contains :: "str \<Rightarrow> str \<Rightarrow> bool" where
  "str_contains sub [] = (sub = [])"
| "str_contains sub (c # cs) = (str_startswith (c # cs) sub \<or> str_contains sub cs)"

definition str_isdigit :: "str \<Rightarrow> bool" where
  "str_isdigit s = (s \<noteq> [] \<and> list_all isdigit s)"

text \<open>\<^verbatim>\<open>sep.join(ws)\<close>.\<close>

fun str_join :: "str \<Rightarrow> str list \<Rightarrow> str" where
  "str_join sep [] = []"
| "str_join sep [w] = w"
| "str_join sep (w # v # ws) = w @ sep @ str_join sep (v # ws)"

text \<open>
  \<^verbatim>\<open>re.sub(r'<[^>]*>', '', s)\<close>: the scan goes left to right; at a \<^verbatim>\<open><\<close> that has a
  \<^verbatim>\<open>>\<close> somewhere after it the match runs to the first such \<^verbatim>\<open>>\<close> and is
  removed; a \<^verbatim>\<open><\<close> with no \<^verbatim>\<open>>\<close> after it matches nothing and stays.
\<close>

function re_sub_tags :: "str \<Rightarrow> str" where
  "re_sub_tags [] = []"
| "re_sub_tags (c # cs) =
     (if c = of_char CHR ''<'' \<and> of_char CHR ''>'' \<in> set cs
      then re_sub_tags (tl (dropWhile (\<lambda>x. x \<noteq> of_char CHR ''>'') cs))
      else c # re_sub_tags cs)"
  by pat_completeness auto
termination
proof (relation "measure length")
  fix c :: int and cs :: str
  have "length (dropWhile (\<lambda>x. x \<noteq> of_char CHR ''>'') cs) \<le> length cs"
    by (rule length_dropWhile_le)
  then show "(tl (dropWhile (\<lambda>x. x \<noteq> of_char CHR ''>'') cs), c # cs) \<in> measure length"
    by simp
qed simp_all

text \<open>\<^verbatim>\<open>re.sub(r'\s+', ' ', s)\<close>: every maximal run of white space becomes one space.\<close>

function re_sub_ws :: "str \<Rightarrow> str" where
  "re_sub_ws [] = []"
| "re_sub_ws (c # cs) =
     (if isspace c then of_char CHR '' '' # re_sub_ws (dropWhile isspace cs)
      else c # re_sub_ws cs)"
  by pat_completeness auto
termination
proof (relation "measure length")
  fix c :: int and cs :: str
  have "length (dropWhile isspace cs) \<le> length cs"
    by (rule length_dropWhile_le)
  then show "(dropWhile isspace cs, c # cs) \<in> measure length"
    by simp
qed simp_all

text \<open>\<^verbatim>\<open>re.sub(r'[^\w]', '', s)\<close>.\<close>

definition re_sub_nonword :: "str \<Rightarrow> str" where
  "re_sub_nonword s = filter isword s"

subsection \<open>Phase 1 (lines 15-33): the text lines\<close>

text \<open>The test of lines 20-25 on a stripped line: the line is skipped when it holds.\<close>

definition skip_line :: "str \<Rightarrow> bool" where
  "skip_line line =
     (line = [] \<or>
      str_startswith line (ustr ''WEBVTT'') \<or>
      str_startswith line (ustr ''Kind:'') \<or>
      str_startswith line (ustr ''Language:'') \<or>
      str_contains (ustr ''-->'') line \<or>
      str_isdigit line)"

text \<open>Lines 29-30: the value of \<^verbatim>\<open>clean_line\<close>.\<close>

definition clean_line_of :: "str \<Rightarrow> str" where
  "clean_line_of line = str_strip (re_sub_ws (re_sub_tags line))"

text \<open>The loop of lines 18-33, carrying \<^verbatim>\<open>text_lines\<close>.\<close>

fun text_lines_loop :: "str list \<Rightarrow> str list \<Rightarrow> str list" where
  "text_lines_loop [] text_lines = text_lines"
| "text_lines_loop (l # lines) text_lines =
     (let line = str_strip l in
      if skip_line line then text_lines_loop lines text_lines
      else
        let clean_line = clean_line_of line in
        if clean_line \<noteq> [] \<and> length clean_line > 2
        then text_lines_loop lines (text_lines @ [clean_line])
        else text_lines_loop lines text_lines)"

definition text_lines_of :: "str \<Rightarrow> str list" where
  "text_lines_of vtt_content =
     text_lines_loop (str_split_on (of_char (CHR 0x0A)) vtt_content []) []"

subsection \<open>Phase 2 (lines 39-48): the unique words\<close>

text \<open>Line 45: the key under which a word is remembered.\<close>

definition clean_word_of :: "str \<Rightarrow> str" where
  "clean_word_of word = re_sub_nonword (str_lower word)"

text \<open>The inner loop of lines 44-48, carrying \<^verbatim>\<open>seen_words\<close> and \<^verbatim>\<open>unique_words\<close>.\<close>

fun words_loop :: "str list \<Rightarrow> str set \<times> str list \<Rightarrow> str set \<times> str list" where
  "words_loop [] st = st"
| "words_loop (word # words) (seen_words, unique_words) =
     (let clean_word = clean_word_of word in
      if clean_word \<noteq> [] \<and> clean_word \<notin> seen_words
      then words_loop words (insert clean_word seen_words, unique_words @ [word])
      else words_loop words (seen_words, unique_words))"

text \<open>The outer loop of lines 42-43.\<close>

fun lines_loop :: "str list \<Rightarrow> str set \<times> str list \<Rightarrow> str set \<times> str list" where
  "lines_loop [] st = st"
| "lines_loop (line # text_lines) st = lines_loop text_lines (words_loop (str_split line) st)"

definition unique_words_of :: "str list \<Rightarrow> str list" where
  "unique_words_of text_lines = snd (lines_loop text_lines ({}, []))"

subsection \<open>Phase 3 (lines 51-56): the result text\<close>

definition capitalize_first :: "str \<Rightarrow> str" where
  "capitalize_first result_text =
     (case result_text of [] \<Rightarrow> [] | c # cs \<Rightarrow> str_upper [c] @ cs)"

definition result_text_of :: "str list \<Rightarrow> str" where
  "result_text_of unique_words =
     capitalize_first (str_strip (re_sub_ws (str_join (ustr '' '') unique_words)))"

subsection \<open>Phase 4 (lines 59-78): the sentences\<close>

text \<open>Lines 67-68: the test that closes the running sentence after a word was appended.\<close>

definition closes :: "str \<Rightarrow> str list \<Rightarrow> bool" where
  "closes word current_sentence =
     (str_endswith word (ustr ''.'') \<or> str_endswith word (ustr ''!'') \<or>
      str_endswith word (ustr ''?'') \<or>
      length (str_join (ustr '' '') current_sentence) > 50)"

text \<open>Lines 69-71 and 76-78: a sentence is appended when its stripped text is not empty.\<close>

definition append_sentence :: "str list \<Rightarrow> str list \<Rightarrow> str list" where
  "append_sentence sentences current_sentence =
     (let sentence_text = str_strip (str_join (ustr '' '') current_sentence) in
      if sentence_text \<noteq> [] then sentences @ [sentence_text] else sentences)"

text \<open>The loop of lines 63-72, carrying \<^verbatim>\<open>sentences\<close> and \<^verbatim>\<open>current_sentence\<close>.\<close>

fun sentence_loop :: "str list \<Rightarrow> str list \<times> str list \<Rightarrow> str list \<times> str list" where
  "sentence_loop [] st = st"
| "sentence_loop (word # words) (sentences, current_sentence) =
     (let current_sentence = current_sentence @ [word] in
      if closes word current_sentence
      then sentence_loop words (append_sentence sentences current_sentence, [])
      else sentence_loop words (sentences, current_sentence))"

definition sentences_of :: "str \<Rightarrow> str list" where
  "sentences_of result_text =
     (case sentence_loop (str_split result_text) ([], []) of
        (sentences, current_sentence) \<Rightarrow>
          if current_sentence \<noteq> [] then append_sentence sentences current_sentence
          else sentences)"

subsection \<open>Phase 5 (lines 81-96): the segments\<close>

datatype error = ZeroDivisionError | OverflowError

text \<open>The dictionary of lines 89-94; the field names carry a prefix.\<close>

record segment =
  seg_text :: str
  seg_start :: rat
  seg_end :: rat
  seg_duration :: rat

definition total_duration :: int where
  "total_duration = 144"

text \<open>
  Rounding to the nearest double, ties to even. For a positive rational \<open>x\<close> the exponent
  is the \<open>e\<close> with \<open>2 ^ e \<le> x < 2 ^ (e + 1)\<close>; a double has 53 significant bits, so
  its last bit has the weight \<open>2 ^ (e - 52)\<close>, and no less than \<open>2 ^ (- 1074)\<close>, the
  weight of the last bit of the subnormal doubles.
\<close>

function bitlen :: "int \<Rightarrow> int" where
  "bitlen n = (if n \<le> 0 then 0 else 1 + bitlen (n div 2))"
  by pat_completeness auto
termination
  by (relation "measure nat") auto

definition pow2 :: "int \<Rightarrow> rat" where
  "pow2 e = (if 0 \<le> e then of_int (2 ^ nat e) else 1 / of_int (2 ^ nat (- e)))"

definition exponent :: "rat \<Rightarrow> int" where
  "exponent x =
     (case quotient_of x of
        (p, q) \<Rightarrow>
          let d = bitlen p - bitlen q
          in if pow2 d \<le> x then d else d - 1)"

definition round_half_even :: "rat \<Rightarrow> int" where
  "round_half_even x =
     (let f = \<lfloor>x\<rfloor>; r = x - of_int f
      in if r < 1 / 2 then f else if 1 / 2 < r then f + 1 else if even f then f else f + 1)"

definition round_double :: "rat \<Rightarrow> rat" where
  "round_double x =
     (if x = 0 then 0
      else
        let q = pow2 (max (exponent \<bar>x\<bar>) (- 1022) - 52)
        in sgn x * of_int (round_half_even (\<bar>x\<bar> / q)) * q)"

text \<open>
  \<^verbatim>\<open>a / b\<close> on two integers. The quotient rounds to a finite double exactly when its
  absolute value is below \<open>2 ^ 1024 - 2 ^ 970\<close>, the middle between the largest double
  and \<open>2 ^ 1024\<close>; otherwise the division raises \<^verbatim>\<open>OverflowError\<close>.
\<close>

definition double_limit :: int where
  "double_limit = 2 ^ 1024 - 2 ^ 970"

definition truediv :: "int \<Rightarrow> int \<Rightarrow> error + rat" where
  "truediv a b =
     (if b = 0 then Inl ZeroDivisionError
      else if double_limit * \<bar>b\<bar> \<le> \<bar>a\<bar> then Inl OverflowError
      else Inr (round_double (of_int a / of_int b)))"

text \<open>
  \<^verbatim>\<open>x - y\<close> on two finite doubles of the same sign: the difference rounded to a double.
  (In line 93 both operands come from lines 86-87, where a non-negative integer is divided
  by a length, so neither is negative and the difference is never beyond the doubles.)
\<close>

definition float_sub :: "rat \<Rightarrow> rat \<Rightarrow> rat" where
  "float_sub x y = round_double (x - y)"

text \<open>
  The loop of lines 84-94 over \<^verbatim>\<open>enumerate(sentences)\<close>: the first argument is the whole
  list (for \<^verbatim>\<open>len(sentences)\<close>), then the index, the remaining sentences and \<^verbatim>\<open>segments\<close>.
\<close>

fun segments_loop :: "str list \<Rightarrow> nat \<Rightarrow> str list \<Rightarrow> segment list \<Rightarrow> error + segment list" where
  "segments_loop sentences i [] segments = Inr segments"
| "segments_loop sentences i (sentence # rest) segments =
     (if str_strip sentence \<noteq> [] then
        (case truediv (int i * total_duration) (int (length sentences)) of
           Inl e \<Rightarrow> Inl e
         | Inr start_time \<Rightarrow>
            (case truediv ((int i + 1) * total_duration) (int (length sentences)) of
               Inl e \<Rightarrow> Inl e
             | Inr end_time \<Rightarrow>
                 segments_loop sentences (Suc i) rest
                   (segments @ [\<lparr>seg_text = str_strip sentence, seg_start = start_time,
                                 seg_end = end_time, seg_duration = float_sub end_time start_time\<rparr>])))
      else segments_loop sentences (Suc i) rest segments)"

definition segments_of :: "str list \<Rightarrow> error + segment list" where
  "segments_of sentences = segments_loop sentences 0 sentences []"

subsection \<open>The function \<^verbatim>\<open>aggressive_clean_vtt\<close> (lines 11-96)\<close>

definition aggressive_clean_vtt :: "str \<Rightarrow> error + segment list" where
  "aggressive_clean_vtt vtt_content =
     (let text_lines = text_lines_of vtt_content in
      if text_lines = [] then Inr []
      else segments_of (sentences_of (result_text_of (unique_words_of text_lines))))"

subsection \<open>The entry point (lines 98-150)\<close>

text \<open>
  The extraction library is outside the repository; it is a parameter. A caption format is
  a dictionary read at \<^verbatim>\<open>'ext'\<close> and \<^verbatim>\<open>'url'\<close>, the info dictionary is read at
  \<^verbatim>\<open>'subtitles'\<close> and \<^verbatim>\<open>'automatic_captions'\<close>; a key may be absent. A call of the library
  returns a value or raises (\<open>Inl\<close> with the message).
\<close>

record caption_format =
  ext :: "str option"
  url :: "str option"

record video_info =
  subtitles :: "(str \<rightharpoonup> caption_format list) option"
  automatic_captions :: "(str \<rightharpoonup> caption_format list) option"

record yt_dlp =
  extract_info :: "str \<Rightarrow> str + video_info"
  urlopen :: "str \<Rightarrow> str + str"

text \<open>The exceptions that reach the handler of line 139.\<close>

datatype failure =
  Language_not_found str
| Vtt_not_found
| KeyError str
| Library_error str
| Cleaning_error error

text \<open>What the process does that is visible from outside, in order.\<close>

datatype event =
  Call_extract_info str
| Call_urlopen str
| Print_stdout "segment list"
| Print_stderr_usage str
| Print_stderr_error failure

record outcome =
  events :: "event list"
  exit_status :: int

text \<open>Lines 116-121.\<close>

definition track_of :: "(str \<rightharpoonup> caption_format list) option \<Rightarrow> str \<Rightarrow> caption_format list option" where
  "track_of tracks language = (case tracks of None \<Rightarrow> None | Some m \<Rightarrow> m language)"

definition formats_of :: "video_info \<Rightarrow> str \<Rightarrow> failure + caption_format list" where
  "formats_of info language =
     (case track_of (subtitles info) language of
        Some formats \<Rightarrow> Inr formats
      | None \<Rightarrow>
         (case track_of (automatic_captions info) language of
            Some formats \<Rightarrow> Inr formats
          | None \<Rightarrow> Inl (Language_not_found language)))"

text \<open>The loop of lines 124-127; the result is \<^verbatim>\<open>subtitle_url\<close>, \<open>None\<close> as in line 114.\<close>

fun subtitle_url_of :: "caption_format list \<Rightarrow> failure + str option" where
  "subtitle_url_of [] = Inr None"
| "subtitle_url_of (fmt # formats) =
     (if ext fmt = Some (ustr ''vtt'')
      then (case url fmt of None \<Rightarrow> Inl (KeyError (ustr ''url'')) | Some u \<Rightarrow> Inr (Some u))
      else subtitle_url_of formats)"

text \<open>Lines 139-141: the handler prints the error and exits with status 1.\<close>

definition handler :: "event list \<Rightarrow> failure \<Rightarrow> outcome" where
  "handler done e = \<lparr>events = done @ [Print_stderr_error e], exit_status = 1\<rparr>"

definition download_and_clean_subtitles :: "yt_dlp \<Rightarrow> str \<Rightarrow> str \<Rightarrow> outcome" where
  "download_and_clean_subtitles ydl video_url language =
     (case extract_info ydl video_url of
        Inl msg \<Rightarrow> handler [Call_extract_info video_url] (Library_error msg)
      | Inr info \<Rightarrow>
         (case formats_of info language of
            Inl e \<Rightarrow> handler [Call_extract_info video_url] e
          | Inr formats \<Rightarrow>
             (case subtitle_url_of formats of
                Inl e \<Rightarrow> handler [Call_extract_info video_url] e
              | Inr None \<Rightarrow> handler [Call_extract_info video_url] Vtt_not_found
              | Inr (Some subtitle_url) \<Rightarrow>
                 if subtitle_url = [] then handler [Call_extract_info video_url] Vtt_not_found
                 else
                   (case urlopen ydl subtitle_url of
                      Inl msg \<Rightarrow>
                        handler [Call_extract_info video_url, Call_urlopen subtitle_url]
                          (Library_error msg)
                    | Inr subtitle_data \<Rightarrow>
                       (case aggressive_clean_vtt subtitle_data of
                          Inl e \<Rightarrow>
                            handler [Call_extract_info video_url, Call_urlopen subtitle_url]
                              (Cleaning_error e)
                        | Inr segments \<Rightarrow>
                            \<lparr>events = [Call_extract_info video_url, Call_urlopen subtitle_url,
                                       Print_stdout segments],
                             exit_status = 0\<rparr>)))))"

text \<open>Lines 143-150; \<^verbatim>\<open>sys.argv\<close> is the program name followed by the positional arguments.\<close>

definition usage :: str where
  "usage = (ustr ''Usage: python clean_transcript.py <video_url> <language>'')"

definition main :: "yt_dlp \<Rightarrow> str list \<Rightarrow> outcome" where
  "main ydl argv =
     (if length argv \<noteq> 3 then \<lparr>events = [Print_stderr_usage usage], exit_status = 1\<rparr>
      else download_and_clean_subtitles ydl (argv ! 1) (argv ! 2))"

subsection \<open>Notions used in the statements and proofs\<close>

text \<open>A token is what \<^verbatim>\<open>str.split()\<close> returns: a non-empty str without white space.\<close>

definition token :: "str \<Rightarrow> bool" where
  "token w = (w \<noteq> [] \<and> \<not> list_ex isspace w)"

text \<open>No word of the buffer satisfied the closing test when it was appended.\<close>

definition open_buffer :: "str list \<Rightarrow> bool" where
  "open_buffer b = list_all (\<lambda>n. \<not> closes (b ! (n - 1)) (take n b)) [1..<Suc (length b)]"

text \<open>
  Word number \<open>j\<close> of \<open>ws\<close> has a key that is not empty and that no earlier word of
  \<open>ws\<close> has.
\<close>

definition kept_at :: "str list \<Rightarrow> nat \<Rightarrow> bool" where
  "kept_at ws j =
     (clean_word_of (ws ! j) \<noteq> [] \<and>
      clean_word_of (ws ! j) \<notin> clean_word_of ` set (take j ws))"

text \<open>The same selection when some keys were seen before the first word.\<close>

definition first_occurrences :: "str set \<Rightarrow> str list \<Rightarrow> str list" where
  "first_occurrences seen ws =
     map ((!) ws)
       (filter (\<lambda>j. clean_word_of (ws ! j) \<noteq> [] \<and> clean_word_of (ws ! j) \<notin> seen \<and>
                    clean_word_of (ws ! j) \<notin> clean_word_of ` set (take j ws))
          [0..<length ws])"

text \<open>
  The rule of the specification for keeping a trimmed line, with the list of header
  markers as a parameter: the line is not empty, begins with none of the markers, is not
  purely numeric, does not contain the arrow, and its cleaned form is longer than 2.
\<close>

definition spec_keeps :: "str list \<Rightarrow> str \<Rightarrow> bool" where
  "spec_keeps markers line =
     (line \<noteq> [] \<and> \<not> list_ex (str_startswith line) markers \<and> \<not> str_isdigit line \<and>
      \<not> str_contains (ustr ''-->'') line \<and> length (clean_line_of line) > 2)"

text \<open>No \<^verbatim>\<open><\<close> of the str has a \<^verbatim>\<open>>\<close> after it: the tag pattern matches nowhere.\<close>

fun no_tag :: "str \<Rightarrow> bool" where
  "no_tag [] = True"
| "no_tag (c # cs) = ((c \<noteq> of_char CHR ''<'' \<or> of_char CHR ''>'' \<notin> set cs) \<and> no_tag cs)"

text \<open>Every white space character of the str is a space that no white space follows.\<close>

fun collapsed :: "str \<Rightarrow> bool" where
  "collapsed [] = True"
| "collapsed (c # cs) =
     ((\<not> isspace c \<or> (c = of_char CHR '' '' \<and> (cs = [] \<or> \<not> isspace (hd cs)))) \<and> collapsed cs)"

subsection \<open>The set of seen keys as a data structure\<close>

text \<open>
  The set \<^verbatim>\<open>seen_words\<close> of line 39 is a hash table; the order in which it holds its
  members depends on the hash seed of the process. The function creates it (line 39), tests
  membership (line 46) and adds a key (line 48). Here the set is any data structure with
  these three operations, and phase 2 and the whole function are written over it.
\<close>

record 's seen_set =
  set_new :: 's
  set_contains :: "str \<Rightarrow> 's \<Rightarrow> bool"
  set_add :: "str \<Rightarrow> 's \<Rightarrow> 's"

fun words_loop_with :: "'s seen_set \<Rightarrow> str list \<Rightarrow> 's \<times> str list \<Rightarrow> 's \<times> str list" where
  "words_loop_with S [] st = st"
| "words_loop_with S (word # words) (seen_words, unique_words) =
     (let clean_word = clean_word_of word in
      if clean_word \<noteq> [] \<and> \<not> set_contains S clean_word seen_words
      then words_loop_with S words (set_add S clean_word seen_words, unique_words @ [word])
      else words_loop_with S words (seen_words, unique_words))"

fun lines_loop_with :: "'s seen_set \<Rightarrow> str list \<Rightarrow> 's \<times> str list \<Rightarrow> 's \<times> str list" where
  "lines_loop_with S [] st = st"
| "lines_loop_with S (line # text_lines) st =
     lines_loop_with S text_lines (words_loop_with S (str_split line) st)"

definition unique_words_with :: "'s seen_set \<Rightarrow> str list \<Rightarrow> str list" where
  "unique_words_with S text_lines = snd (lines_loop_with S text_lines (set_new S, []))"

definition aggressive_clean_vtt_with :: "'s seen_set \<Rightarrow> str \<Rightarrow> error + segment list" where
  "aggressive_clean_vtt_with S vtt_content =
     (let text_lines = text_lines_of vtt_content in
      if text_lines = [] then Inr []
      else segments_of (sentences_of (result_text_of (unique_words_with S text_lines))))"

text \<open>
  The data structure is a set: each of its states stands for a set of keys (given by
  \<open>\<alpha>\<close>), the new one for the empty set, and the operations add and test as a set does.
\<close>

definition represents :: "'s seen_set \<Rightarrow> ('s \<Rightarrow> str set) \<Rightarrow> bool" where
  "represents S \<alpha> =
     (\<alpha> (set_new S) = {} \<and>
      (\<forall>k s. \<alpha> (set_add S k s) = insert k (\<alpha> s)) \<and>
      (\<forall>k s. set_contains S k s = (k \<in> \<alpha> s)))"

text \<open>Two such data structures: a list that grows at the front and one that grows at the end.\<close>

definition front_list :: "str list seen_set" where
  "front_list = \<lparr>set_new = [], set_contains = (\<lambda>k s. k \<in> set s), set_add = (\<lambda>k s. k # s)\<rparr>"

definition back_list :: "str list seen_set" where
  "back_list = \<lparr>set_new = [], set_contains = (\<lambda>k s. k \<in> set s), set_add = (\<lambda>k s. s @ [k])\<rparr>"

section \<open>Properties\<close>

subsection \<open>Scenario A\<close>

text \<open>
  C7. For the payload whose cleaned lines are \<^verbatim>\<open>["Hello hello world", "world again"]\<close> the
  unique words are \<^verbatim>\<open>["Hello", "world", "again"]\<close>, there is exactly one sentence
  \<^verbatim>\<open>"Hello world again"\<close>, and the function returns exactly one segment with that text,
  start 0, end 144 and duration 144.
\<close>

theorem scenario_A:
  "text_lines_of (ustr ''Hello hello world\<newline>world again'') = [ustr ''Hello hello world'', ustr ''world again'']
   \<and> unique_words_of [ustr ''Hello hello world'', ustr ''world again''] = [ustr ''Hello'', ustr ''world'', ustr ''again'']
   \<and> sentences_of (result_text_of [ustr ''Hello'', ustr ''world'', ustr ''again'']) = [ustr ''Hello world again'']
   \<and> segments_of [ustr ''Hello world again''] =
         Inr [\<lparr>seg_text = ustr ''Hello world again'', seg_start = 0, seg_end = 144, seg_duration = 144\<rparr>]
   \<and> aggressive_clean_vtt (ustr ''Hello hello world\<newline>world again'') =
         Inr [\<lparr>seg_text = ustr ''Hello world again'', seg_start = 0, seg_end = 144, seg_duration = 144\<rparr>]"
  by code_simp

subsection \<open>The entry point\<close>

text \<open>
  C8. When the process is started with a number of positional arguments other than two
  (so \<^verbatim>\<open>sys.argv\<close>, which begins with the program name, has not three items), it prints the
  usage message on the error stream and exits with status 1; the library is not called and
  nothing is printed on the standard output.
\<close>

theorem main_usage:
  assumes "length args \<noteq> 2"
  shows "main ydl (prog # args) = \<lparr>events = [Print_stderr_usage usage], exit_status = 1\<rparr>"
  using assms by (simp add: main_def)

theorem main_usage_witness:
  "length [ustr ''https://example.org/v''] \<noteq> (2::nat) \<and>
   main \<lparr>extract_info = (\<lambda>u. Inl (ustr ''unreachable'')), urlopen = (\<lambda>u. Inl (ustr ''unreachable''))\<rparr>
        [ustr ''clean_transcript.py'', ustr ''https://example.org/v'']
     = \<lparr>events = [Print_stderr_usage usage], exit_status = 1\<rparr>"
proof -
  have h: "length [ustr ''https://example.org/v''] \<noteq> (2::nat)" by simp
  show ?thesis using h main_usage [OF h] by simp
qed

subsection \<open>The segmenter and the segments\<close>

lemma open_buffer_iff:
  "open_buffer b \<longleftrightarrow> (\<forall>n. 0 < n \<and> n \<le> length b \<longrightarrow> \<not> closes (b ! (n - 1)) (take n b))"
proof -
  have "\<And>n. n \<in> set [1..<Suc (length b)] \<longleftrightarrow> 0 < n \<and> n \<le> length b" by auto
  then show ?thesis unfolding open_buffer_def list_all_iff by blast
qed

lemma str_split_ws_tokens:
  "\<not> list_ex isspace cur \<Longrightarrow> \<forall>w\<in>set (str_split_ws s cur). token w"
proof (induction s arbitrary: cur)
  case Nil
  then show ?case by (simp add: token_def)
next
  case (Cons c s)
  show ?case
  proof (cases "isspace c")
    case True
    from Cons.IH[of "[]"] have "\<forall>w\<in>set (str_split_ws s []). token w" by simp
    with True Cons.prems show ?thesis by (simp add: token_def)
  next
    case False
    with Cons.prems have "\<not> list_ex isspace (cur @ [c])" by simp
    from Cons.IH[OF this] False show ?thesis by simp
  qed
qed

lemma str_split_tokens: "\<forall>w\<in>set (str_split s). token w"
  unfolding str_split_def by (rule str_split_ws_tokens) simp

lemma str_strip_id:
  assumes "s \<noteq> []" "\<not> isspace (hd s)" "\<not> isspace (last s)"
  shows "str_strip s = s"
proof -
  from assms have 1: "dropWhile isspace s = s" by (cases s) auto
  from assms have "rev s \<noteq> []" "\<not> isspace (hd (rev s))" by (auto simp: hd_rev)
  then have "dropWhile isspace (rev s) = rev s" by (cases "rev s") auto
  with 1 show ?thesis by (simp add: str_strip_def)
qed

lemma str_join_tokens_hd:
  "ws \<noteq> [] \<Longrightarrow> \<forall>w\<in>set ws. token w \<Longrightarrow> str_join sep ws \<noteq> [] \<and> hd (str_join sep ws) = hd (hd ws)"
  by (induction sep ws rule: str_join.induct) (auto simp: token_def)

lemma str_join_tokens_last:
  "ws \<noteq> [] \<Longrightarrow> \<forall>w\<in>set ws. token w \<Longrightarrow> last (str_join sep ws) = last (last ws)"
proof (induction sep ws rule: str_join.induct)
  case (3 sep w v ws)
  then have "str_join sep (v # ws) \<noteq> []" using str_join_tokens_hd[of "v # ws" sep] by simp
  with 3 show ?case by simp
qed simp_all

lemma token_ends: "token w \<Longrightarrow> \<not> isspace (hd w) \<and> \<not> isspace (last w)"
  by (auto simp: token_def list_ex_iff)

lemma strip_join_tokens:
  assumes "ws \<noteq> []" "\<forall>w\<in>set ws. token w"
  shows "str_strip (str_join sep ws) = str_join sep ws" "str_join sep ws \<noteq> []"
proof -
  from assms have "token (hd ws)" "token (last ws)" by auto
  then have "\<not> isspace (hd (hd ws))" "\<not> isspace (last (last ws))" by (auto dest: token_ends)
  with assms show "str_strip (str_join sep ws) = str_join sep ws"
    by (intro str_strip_id) (simp_all add: str_join_tokens_hd str_join_tokens_last)
  from assms show "str_join sep ws \<noteq> []" by (simp add: str_join_tokens_hd)
qed

lemma append_sentence_tokens:
  "ws \<noteq> [] \<Longrightarrow> \<forall>w\<in>set ws. token w \<Longrightarrow> append_sentence sentences ws = sentences @ [str_join (ustr '' '') ws]"
  by (simp add: append_sentence_def strip_join_tokens)

lemma open_buffer_Nil: "open_buffer []"
  by (simp add: open_buffer_def)

lemma open_buffer_snoc:
  "open_buffer b \<Longrightarrow> \<not> closes w (b @ [w]) \<Longrightarrow> open_buffer (b @ [w])"
  unfolding open_buffer_iff
proof (intro allI impI)
  fix n assume a: "\<forall>n. 0 < n \<and> n \<le> length b \<longrightarrow> \<not> closes (b ! (n - 1)) (take n b)"
    and c: "\<not> closes w (b @ [w])" and n: "0 < n \<and> n \<le> length (b @ [w])"
  show "\<not> closes ((b @ [w]) ! (n - 1)) (take n (b @ [w]))"
  proof (cases "n \<le> length b")
    case True
    with n a have "\<not> closes (b ! (n - 1)) (take n b)" by simp
    moreover from True n have "n - 1 < length b" by simp
    ultimately show ?thesis using True by (simp add: nth_append)
  next
    case False
    with n have "n = Suc (length b)" by simp
    with c show ?thesis by simp
  qed
qed

lemma sentence_loop_blocks:
  assumes "\<forall>w\<in>set words. token w" "\<forall>w\<in>set cur. token w" "open_buffer cur"
  shows "\<exists>blocks rest.
           sentence_loop words (sentences, cur) = (sentences @ map (str_join (ustr '' '')) blocks, rest)
         \<and> concat blocks @ rest = cur @ words
         \<and> (\<forall>b\<in>set blocks. b \<noteq> [] \<and> closes (last b) b \<and> open_buffer (butlast b))
         \<and> open_buffer rest"
  using assms
proof (induction words arbitrary: sentences cur)
  case Nil
  then show ?case by (intro exI[of _ "[]"] exI[of _ cur]) simp
next
  case (Cons w words)
  let ?cur = "cur @ [w]"
  have tok: "\<forall>x\<in>set ?cur. token x" "?cur \<noteq> []" using Cons.prems by auto
  show ?case
  proof (cases "closes w ?cur")
    case True
    from Cons.IH[of "[]" "sentences @ [str_join (ustr '' '') ?cur]"] Cons.prems
    obtain blocks rest where
      1: "sentence_loop words (sentences @ [str_join (ustr '' '') ?cur], []) =
            ((sentences @ [str_join (ustr '' '') ?cur]) @ map (str_join (ustr '' '')) blocks, rest)"
      and 2: "concat blocks @ rest = [] @ words"
      and 3: "\<forall>b\<in>set blocks. b \<noteq> [] \<and> closes (last b) b \<and> open_buffer (butlast b)"
      and 4: "open_buffer rest"
      by (auto simp: open_buffer_Nil)
    have "sentence_loop (w # words) (sentences, cur) =
            (sentences @ map (str_join (ustr '' '')) (?cur # blocks), rest)"
      using True 1 append_sentence_tokens[OF tok(2) tok(1)] by simp
    moreover have "concat (?cur # blocks) @ rest = cur @ w # words" using 2 by simp
    moreover have "\<forall>b\<in>set (?cur # blocks). b \<noteq> [] \<and> closes (last b) b \<and> open_buffer (butlast b)"
      using 3 True Cons.prems(3) by simp
    ultimately show ?thesis using 4 by blast
  next
    case False
    have ob: "open_buffer ?cur" using Cons.prems(3) False by (rule open_buffer_snoc)
    from Cons.IH[of ?cur sentences] Cons.prems tok ob
    obtain blocks rest where
      1: "sentence_loop words (sentences, ?cur) = (sentences @ map (str_join (ustr '' '')) blocks, rest)"
      and 2: "concat blocks @ rest = ?cur @ words"
      and 3: "\<forall>b\<in>set blocks. b \<noteq> [] \<and> closes (last b) b \<and> open_buffer (butlast b)"
      and 4: "open_buffer rest"
      by auto
    have "sentence_loop (w # words) (sentences, cur) = (sentences @ map (str_join (ustr '' '')) blocks, rest)"
      using False 1 by simp
    moreover have "concat blocks @ rest = cur @ w # words" using 2 by simp
    ultimately show ?thesis using 3 4 by blast
  qed
qed


lemma open_buffer_butlast: "open_buffer b \<Longrightarrow> open_buffer (butlast b)"
  unfolding open_buffer_iff
proof (intro allI impI)
  fix n assume a: "\<forall>n. 0 < n \<and> n \<le> length b \<longrightarrow> \<not> closes (b ! (n - 1)) (take n b)"
    and n: "0 < n \<and> n \<le> length (butlast b)"
  then have "n \<le> length b" "n - 1 < length (butlast b)" by auto
  with a n have "\<not> closes (b ! (n - 1)) (take n b)" by simp
  moreover have "butlast b ! (n - 1) = b ! (n - 1)" using \<open>n - 1 < length (butlast b)\<close> by (rule nth_butlast)
  moreover have "take n (butlast b) = take n b"
  proof -
    from n have "n \<le> length b - 1" by simp
    then have "min n (length b - 1) = n" by simp
    then show ?thesis by (simp only: butlast_conv_take take_take)
  qed
  ultimately show "\<not> closes (butlast b ! (n - 1)) (take n (butlast b))" by simp
qed

lemma sentences_of_blocks:
  "\<exists>blocks. sentences_of result_text = map (str_join (ustr '' '')) blocks
     \<and> concat blocks = str_split result_text
     \<and> (\<forall>b\<in>set blocks. b \<noteq> [] \<and> open_buffer (butlast b))
     \<and> (\<forall>b\<in>set (butlast blocks). closes (last b) b)"
proof -
  have tok: "\<forall>w\<in>set (str_split result_text). token w" by (rule str_split_tokens)
  from sentence_loop_blocks[OF tok, of "[]" "[]"]
  obtain blocks rest where
    1: "sentence_loop (str_split result_text) ([], []) = (map (str_join (ustr '' '')) blocks, rest)"
    and 2: "concat blocks @ rest = str_split result_text"
    and 3: "\<forall>b\<in>set blocks. b \<noteq> [] \<and> closes (last b) b \<and> open_buffer (butlast b)"
    and 4: "open_buffer rest"
    by (auto simp: open_buffer_Nil)
  show ?thesis
  proof (cases "rest = []")
    case True
    have "\<forall>b\<in>set (butlast blocks). closes (last b) b" using 3 by (auto dest: in_set_butlastD)
    with True 1 2 3 show ?thesis by (intro exI[of _ blocks]) (simp add: sentences_of_def)
  next
    case False
    from 2 tok have "\<forall>w\<in>set rest. token w" by (metis Un_iff set_append)
    with False have "append_sentence (map (str_join (ustr '' '')) blocks) rest
                      = map (str_join (ustr '' '')) (blocks @ [rest])"
      by (simp add: append_sentence_tokens)
    with False 1 have "sentences_of result_text = map (str_join (ustr '' '')) (blocks @ [rest])"
      by (simp add: sentences_of_def)
    moreover have "concat (blocks @ [rest]) = str_split result_text" using 2 by simp
    moreover have "\<forall>b\<in>set (blocks @ [rest]). b \<noteq> [] \<and> open_buffer (butlast b)"
      using 3 4 False by (auto intro: open_buffer_butlast)
    moreover have "\<forall>b\<in>set (butlast (blocks @ [rest])). closes (last b) b" using 3 by simp
    ultimately show ?thesis by blast
  qed
qed

lemma str_split_ws_token_prefix:
  "\<not> list_ex isspace w \<Longrightarrow> str_split_ws (w @ s) cur = str_split_ws s (cur @ w)"
  by (induction w arbitrary: cur) simp_all

lemma isspace_space: "isspace 32"
  by code_simp

lemma ustr_space: "ustr '' '' = [32]"
  by (simp add: ustr_def)

lemma str_split_ws_join:
  "ws \<noteq> [] \<Longrightarrow> \<forall>w\<in>set ws. token w \<Longrightarrow> str_split_ws (str_join (ustr '' '') ws) [] = ws"
proof (induction "(ustr '' '')" ws rule: str_join.induct)
  case 1
  then show ?case by simp
next
  case (2 w)
  then have "str_split_ws (w @ []) [] = [w]"
    unfolding token_def by (subst str_split_ws_token_prefix) auto
  then show ?case by simp
next
  case (3 w v ws)
  then have w: "w \<noteq> []" "\<not> list_ex isspace w" by (auto simp: token_def)
  have "str_split_ws (w @ (ustr '' '') @ str_join (ustr '' '') (v # ws)) [] =
        str_split_ws ((ustr '' '') @ str_join (ustr '' '') (v # ws)) ([] @ w)"
    using w(2) by (rule str_split_ws_token_prefix)
  also have "\<dots> = w # str_split_ws (str_join (ustr '' '') (v # ws)) []"
    using w(1) by (simp add: ustr_space isspace_space)
  also have "\<dots> = w # v # ws" using 3 by simp
  finally show ?case by simp
qed

lemma str_split_join: "ws \<noteq> [] \<Longrightarrow> \<forall>w\<in>set ws. token w \<Longrightarrow> str_split (str_join (ustr '' '') ws) = ws"
  by (simp add: str_split_def str_split_ws_join)

lemma concat_map_split_join:
  "\<forall>b\<in>set blocks. b \<noteq> [] \<and> (\<forall>w\<in>set b. token w) \<Longrightarrow>
   concat (map str_split (map (str_join (ustr '' '')) blocks)) = concat blocks"
  by (induction blocks) (simp_all add: str_split_join)

text \<open>
  C10. The segmenter conserves the word stream: splitting the emitted sentences into words
  and concatenating them in order gives exactly the words of the input text, and the
  sentences are the space-joined members of a partition of that word sequence into
  non-empty blocks of consecutive words.
\<close>

theorem segmenter_conserves_words:
  "concat (map str_split (sentences_of result_text)) = str_split result_text \<and>
   (\<exists>blocks. sentences_of result_text = map (str_join (ustr '' '')) blocks
       \<and> concat blocks = str_split result_text \<and> [] \<notin> set blocks)"
proof -
  from sentences_of_blocks[of result_text]
  obtain blocks where
    1: "sentences_of result_text = map (str_join (ustr '' '')) blocks"
    and 2: "concat blocks = str_split result_text"
    and 3: "\<forall>b\<in>set blocks. b \<noteq> [] \<and> open_buffer (butlast b)"
    by blast
  have "\<forall>w\<in>set (concat blocks). token w" using 2 str_split_tokens by simp
  then have "\<forall>b\<in>set blocks. b \<noteq> [] \<and> (\<forall>w\<in>set b. token w)" using 3 by auto
  then have "concat (map str_split (map (str_join (ustr '' '')) blocks)) = concat blocks"
    by (rule concat_map_split_join)
  moreover have "[] \<notin> set blocks" using 3 by auto
  ultimately show ?thesis using 1 2 by auto
qed


lemma open_buffer_butlastD:
  assumes "open_buffer (butlast b)" "0 < n" "n < length b"
  shows "\<not> closes (b ! (n - 1)) (take n b)"
proof -
  from assms(2,3) have n: "0 < n \<and> n \<le> length (butlast b)" by simp
  with assms(1) have "\<not> closes (butlast b ! (n - 1)) (take n (butlast b))"
    unfolding open_buffer_iff by blast
  moreover from n have "n - 1 < length (butlast b)" by arith
  then have "butlast b ! (n - 1) = b ! (n - 1)" by (rule nth_butlast)
  moreover have "take n (butlast b) = take n b"
  proof -
    from n have "min n (length b - 1) = n" by simp
    then show ?thesis by (simp only: butlast_conv_take take_take)
  qed
  ultimately show ?thesis by simp
qed

lemma sentences_of_tokens:
  "\<forall>s\<in>set (sentences_of result_text). s \<noteq> [] \<and> str_strip s = s"
proof -
  from sentences_of_blocks[of result_text]
  obtain blocks where
    1: "sentences_of result_text = map (str_join (ustr '' '')) blocks"
    and 2: "concat blocks = str_split result_text"
    and 3: "\<forall>b\<in>set blocks. b \<noteq> [] \<and> open_buffer (butlast b)"
    by blast
  have "\<forall>w\<in>set (concat blocks). token w" using 2 str_split_tokens by simp
  then have "\<forall>b\<in>set blocks. b \<noteq> [] \<and> (\<forall>w\<in>set b. token w)" using 3 by auto
  then have "\<forall>b\<in>set blocks. str_join (ustr '' '') b \<noteq> [] \<and> str_strip (str_join (ustr '' '') b) = str_join (ustr '' '') b"
    by (simp add: strip_join_tokens)
  with 1 show ?thesis by simp
qed

text \<open>
  C4. The sentences are the space-joined blocks of a partition of the word sequence of the
  text. Inside a block no word before the last one satisfies the closing test of lines 67-68
  (the word ends with a full stop, an exclamation mark or a question mark, or the joined
  buffer is longer than 50 characters), so the buffer is closed only at a word where the
  test holds; every block but the last ends at a word where the test holds, so the buffer
  is closed at the first word where it holds; the last block is either closed in the same
  way or is the buffer flushed after the last word; no sentence is empty.
\<close>

theorem segmenter_closes_exactly:
  "\<exists>blocks. sentences_of result_text = map (str_join (ustr '' '')) blocks
     \<and> concat blocks = str_split result_text
     \<and> (\<forall>b\<in>set blocks. b \<noteq> [] \<and>
           (\<forall>n. 0 < n \<and> n < length b \<longrightarrow> \<not> closes (b ! (n - 1)) (take n b)))
     \<and> (\<forall>b\<in>set (butlast blocks). closes (last b) b)
     \<and> [] \<notin> set (sentences_of result_text)"
proof -
  from sentences_of_blocks[of result_text]
  obtain blocks where
    1: "sentences_of result_text = map (str_join (ustr '' '')) blocks"
    and 2: "concat blocks = str_split result_text"
    and 3: "\<forall>b\<in>set blocks. b \<noteq> [] \<and> open_buffer (butlast b)"
    and 4: "\<forall>b\<in>set (butlast blocks). closes (last b) b"
    by blast
  have "\<forall>b\<in>set blocks. b \<noteq> [] \<and>
           (\<forall>n. 0 < n \<and> n < length b \<longrightarrow> \<not> closes (b ! (n - 1)) (take n b))"
    using 3 open_buffer_butlastD by blast
  moreover have "[] \<notin> set (sentences_of result_text)"
    using sentences_of_tokens[of result_text] by blast
  ultimately show ?thesis using 1 2 4 by blast
qed


theorem segmenter_closes_exactly_witness:
  "sentences_of (ustr ''Well hi there. This line of words just keeps running on without a stop and ends'') =
     [ustr ''Well hi there.'', ustr ''This line of words just keeps running on without a stop'', ustr ''and ends'']
   \<and> closes (ustr ''there.'') [ustr ''Well'', ustr ''hi'', ustr ''there.'']
   \<and> \<not> closes (ustr ''hi'') [ustr ''Well'', ustr ''hi'']
   \<and> (\<exists>blocks.
        sentences_of (ustr ''Well hi there. This line of words just keeps running on without a stop and ends'') =
           map (str_join (ustr '' '')) blocks
      \<and> concat blocks =
           str_split (ustr ''Well hi there. This line of words just keeps running on without a stop and ends'')
      \<and> (\<forall>b\<in>set blocks. b \<noteq> [] \<and>
           (\<forall>n. 0 < n \<and> n < length b \<longrightarrow> \<not> closes (b ! (n - 1)) (take n b)))
      \<and> (\<forall>b\<in>set (butlast blocks). closes (last b) b)
      \<and> [] \<notin> set (sentences_of
            (ustr ''Well hi there. This line of words just keeps running on without a stop and ends'')))"
proof -
  have a: "sentences_of (ustr ''Well hi there. This line of words just keeps running on without a stop and ends'') =
     [ustr ''Well hi there.'', ustr ''This line of words just keeps running on without a stop'', ustr ''and ends'']"
    by code_simp
  have b: "closes (ustr ''there.'') [ustr ''Well'', ustr ''hi'', ustr ''there.'']" by code_simp
  have c: "\<not> closes (ustr ''hi'') [ustr ''Well'', ustr ''hi'']" by code_simp
  from a b c segmenter_closes_exactly
    [of "(ustr ''Well hi there. This line of words just keeps running on without a stop and ends'')"]
  show ?thesis by (intro conjI)
qed

lemma double_limit_gt: "144 < double_limit"
  by (simp add: double_limit_def)

lemma truediv_in_range:
  assumes "0 \<le> a" "a \<le> 144 * b" "0 < b"
  shows "truediv a b = Inr (round_double (of_int a / of_int b))"
proof -
  have "144 * b < double_limit * b"
    using double_limit_gt assms(3) by (rule mult_strict_right_mono)
  with assms(2) have nle: "\<not> double_limit * b \<le> a" by linarith
  from assms have ab: "\<bar>a\<bar> = a" "\<bar>b\<bar> = b" by simp_all
  from assms(3) have "b \<noteq> 0" by simp
  with nle show ?thesis by (simp only: truediv_def ab if_False)
qed

lemma truediv_start:
  assumes "i < N"
  shows "truediv (int i * total_duration) (int N) =
           Inr (round_double (of_int (int i * 144) / of_int (int N)))"
  unfolding total_duration_def using assms by (intro truediv_in_range) simp_all

lemma truediv_end:
  assumes "i < N"
  shows "truediv ((int i + 1) * total_duration) (int N) =
           Inr (round_double (of_int ((int i + 1) * 144) / of_int (int N)))"
  unfolding total_duration_def using assms by (intro truediv_in_range) simp_all

lemma segments_loop_eq:
  assumes "i + length rest = length sentences" "\<forall>s\<in>set rest. s \<noteq> [] \<and> str_strip s = s"
  shows "segments_loop sentences i rest acc =
     Inr (acc @ map (\<lambda>(j, s).
            \<lparr>seg_text = s,
             seg_start = round_double (of_int (int j * 144) / of_int (int (length sentences))),
             seg_end = round_double (of_int ((int j + 1) * 144) / of_int (int (length sentences))),
             seg_duration =
               float_sub (round_double (of_int ((int j + 1) * 144) / of_int (int (length sentences))))
                 (round_double (of_int (int j * 144) / of_int (int (length sentences))))\<rparr>)
          (zip [i..<i + length rest] rest))"
  using assms
proof (induction rest arbitrary: i acc)
  case Nil
  then show ?case by simp
next
  case (Cons s rest)
  have u: "[i..<i + length (s # rest)] = i # [Suc i..<Suc i + length rest]"
  proof -
    have "i < i + length (s # rest)" by simp
    then have "[i..<i + length (s # rest)] = i # [Suc i..<i + length (s # rest)]"
      by (rule upt_conv_Cons)
    then show ?thesis by simp
  qed
  from Cons.prems have s: "s \<noteq> []" "str_strip s = s" by auto
  from Cons.prems have i: "i < length sentences" by simp
  from Cons.prems have n: "Suc i + length rest = length sentences" by simp
  from Cons.prems have r: "\<forall>s\<in>set rest. s \<noteq> [] \<and> str_strip s = s" by simp
  show ?case
    unfolding u
    using s Cons.IH[OF n r] by (simp add: truediv_start[OF i] truediv_end[OF i])
qed

lemma round_double_144: "round_double 144 = 144"
  by code_simp

text \<open>
  C1. For a non-empty list of N sentences produced by the segmenter the loop of lines 84-94
  returns exactly N segments; segment i carries sentence i, its start is the value of
  \<^verbatim>\<open>i * 144 / N\<close> and its end the value of \<^verbatim>\<open>(i + 1) * 144 / N\<close> as Python computes them
  (the quotient rounded to a double), its duration is the value of end minus start (the
  difference rounded to a double); the first segment starts at 0, the last ends at 144,
  and each segment ends where the next one starts.
\<close>

theorem segment_coverage:
  assumes "sentences = sentences_of result_text" and "sentences \<noteq> []"
  shows "\<exists>segments. segments_of sentences = Inr segments
     \<and> length segments = length sentences
     \<and> (\<forall>i<length sentences.
           seg_text (segments ! i) = sentences ! i
         \<and> truediv (int i * 144) (int (length sentences)) = Inr (seg_start (segments ! i))
         \<and> truediv ((int i + 1) * 144) (int (length sentences)) = Inr (seg_end (segments ! i))
         \<and> seg_duration (segments ! i) = float_sub (seg_end (segments ! i)) (seg_start (segments ! i)))
     \<and> seg_start (hd segments) = 0
     \<and> seg_end (last segments) = 144
     \<and> (\<forall>i. Suc i < length sentences \<longrightarrow> seg_end (segments ! i) = seg_start (segments ! Suc i))"
proof -
  define N where "N = length sentences"
  define f where "f = (\<lambda>(j :: nat, s :: str).
            \<lparr>seg_text = s,
             seg_start = round_double (of_int (int j * 144) / of_int (int N)),
             seg_end = round_double (of_int ((int j + 1) * 144) / of_int (int N)),
             seg_duration =
               float_sub (round_double (of_int ((int j + 1) * 144) / of_int (int N)))
                 (round_double (of_int (int j * 144) / of_int (int N)))\<rparr>)"
  define segs where "segs = map f (zip [0..<0 + N] sentences)"
  have tok: "\<forall>s\<in>set sentences. s \<noteq> [] \<and> str_strip s = s"
    using assms(1) sentences_of_tokens by simp
  have eq: "segments_of sentences = Inr segs"
    unfolding segments_of_def segs_def f_def N_def
    using segments_loop_eq[of 0 sentences sentences "[]", OF _ tok] by simp
  have len: "length segs = length sentences" by (simp add: segs_def N_def)
  have N: "0 < N" using assms(2) by (simp add: N_def)
  have nth: "segs ! i = f (i, sentences ! i)" if "i < N" for i
    using that by (simp add: segs_def N_def)
  have fields: "\<forall>i<length sentences.
           seg_text (segs ! i) = sentences ! i
         \<and> truediv (int i * 144) (int (length sentences)) = Inr (seg_start (segs ! i))
         \<and> truediv ((int i + 1) * 144) (int (length sentences)) = Inr (seg_end (segs ! i))
         \<and> seg_duration (segs ! i) = float_sub (seg_end (segs ! i)) (seg_start (segs ! i))"
  proof (intro allI impI)
    fix i assume i: "i < length sentences"
    then have "segs ! i = f (i, sentences ! i)" using nth by (simp add: N_def)
    then show "seg_text (segs ! i) = sentences ! i
         \<and> truediv (int i * 144) (int (length sentences)) = Inr (seg_start (segs ! i))
         \<and> truediv ((int i + 1) * 144) (int (length sentences)) = Inr (seg_end (segs ! i))
         \<and> seg_duration (segs ! i) = float_sub (seg_end (segs ! i)) (seg_start (segs ! i))"
      using truediv_start[OF i] truediv_end[OF i]
      by (simp add: f_def N_def total_duration_def)
  qed
  have ne: "segs \<noteq> []" using len assms(2) by auto
  have first: "seg_start (hd segs) = 0"
  proof -
    have "hd segs = segs ! 0" using ne by (rule hd_conv_nth)
    also have "\<dots> = f (0, sentences ! 0)" using N by (rule nth)
    finally show ?thesis by (simp add: f_def round_double_def)
  qed
  have last: "seg_end (last segs) = 144"
  proof -
    have "last segs = segs ! (length segs - 1)" using ne by (rule last_conv_nth)
    also have "\<dots> = segs ! (N - 1)" by (simp add: len N_def)
    also have "\<dots> = f (N - 1, sentences ! (N - 1))" using N by (intro nth) simp
    finally have "seg_end (last segs) =
        round_double (of_int ((int (N - 1) + 1) * 144) / of_int (int N))"
      by (simp add: f_def)
    moreover have "int (N - 1) + 1 = int N" using N by simp
    moreover have "(of_int (int N * 144) :: rat) / of_int (int N) = 144" using N by simp
    ultimately have "seg_end (last segs) = round_double 144" by simp
    then show ?thesis by (simp only: round_double_144)
  qed
  have adj: "\<forall>i. Suc i < length sentences \<longrightarrow> seg_end (segs ! i) = seg_start (segs ! Suc i)"
  proof (intro allI impI)
    fix i assume "Suc i < length sentences"
    then have i: "Suc i < N" "i < N" by (simp_all add: N_def)
    have "int (Suc i) = int i + 1" by simp
    with nth[OF i(1)] nth[OF i(2)] show "seg_end (segs ! i) = seg_start (segs ! Suc i)"
      by (simp add: f_def add.commute)
  qed
  show ?thesis
    by (rule exI[of _ segs]) (intro conjI eq len fields first last adj)
qed

theorem segment_coverage_witness:
  "sentences_of (ustr ''A one. A two. A three. A four. A five. A six. A seven.'')
     = [ustr ''A one.'', ustr ''A two.'', ustr ''A three.'', ustr ''A four.'', ustr ''A five.'',
        ustr ''A six.'', ustr ''A seven.'']
   \<and> sentences_of (ustr ''A one. A two. A three. A four. A five. A six. A seven.'') \<noteq> []
   \<and> truediv (1 * 144) 7 = Inr (5790342378047781 / 281474976710656)
   \<and> (5790342378047781 / 281474976710656 :: rat) \<noteq> 144 / 7
   \<and> map (\<lambda>g. (seg_start g, seg_end g, seg_duration g))
        (projr (segments_of (sentences_of
           (ustr ''A one. A two. A three. A four. A five. A six. A seven.''))))
      = [(0, 5790342378047781 / 281474976710656, 5790342378047781 / 281474976710656),
         (5790342378047781 / 281474976710656, 5790342378047781 / 140737488355328,
          5790342378047781 / 281474976710656),
         (5790342378047781 / 140737488355328, 8685513567071671 / 140737488355328,
          1447585594511945 / 70368744177664),
         (8685513567071671 / 140737488355328, 5790342378047781 / 70368744177664,
          2895171189023891 / 140737488355328),
         (5790342378047781 / 70368744177664, 3618963986279863 / 35184372088832,
          1447585594511945 / 70368744177664),
         (3618963986279863 / 35184372088832, 8685513567071671 / 70368744177664,
          1447585594511945 / 70368744177664),
         (8685513567071671 / 70368744177664, 144, 1447585594511945 / 70368744177664)]
   \<and> (\<exists>segments. segments_of (sentences_of
           (ustr ''A one. A two. A three. A four. A five. A six. A seven.'')) = Inr segments
        \<and> length segments = 7
        \<and> seg_start (hd segments) = 0
        \<and> seg_end (last segments) = 144)"
proof -
  let ?t = "ustr ''A one. A two. A three. A four. A five. A six. A seven.''"
  have a: "sentences_of ?t
     = [ustr ''A one.'', ustr ''A two.'', ustr ''A three.'', ustr ''A four.'', ustr ''A five.'',
        ustr ''A six.'', ustr ''A seven.'']"
    by code_simp
  then have b: "sentences_of ?t \<noteq> []" by simp
  have c: "truediv (1 * 144) 7 = Inr (5790342378047781 / 281474976710656)" by code_simp
  have d: "(5790342378047781 / 281474976710656 :: rat) \<noteq> 144 / 7" by simp
  have e: "map (\<lambda>g. (seg_start g, seg_end g, seg_duration g)) (projr (segments_of (sentences_of ?t)))
      = [(0, 5790342378047781 / 281474976710656, 5790342378047781 / 281474976710656),
         (5790342378047781 / 281474976710656, 5790342378047781 / 140737488355328,
          5790342378047781 / 281474976710656),
         (5790342378047781 / 140737488355328, 8685513567071671 / 140737488355328,
          1447585594511945 / 70368744177664),
         (8685513567071671 / 140737488355328, 5790342378047781 / 70368744177664,
          2895171189023891 / 140737488355328),
         (5790342378047781 / 70368744177664, 3618963986279863 / 35184372088832,
          1447585594511945 / 70368744177664),
         (3618963986279863 / 35184372088832, 8685513567071671 / 70368744177664,
          1447585594511945 / 70368744177664),
         (8685513567071671 / 70368744177664, 144, 1447585594511945 / 70368744177664)]"
    by code_simp
  from a have n: "length (sentences_of ?t) = 7" by simp
  from segment_coverage[OF refl b]
  have f: "\<exists>segments. segments_of (sentences_of ?t) = Inr segments
        \<and> length segments = 7
        \<and> seg_start (hd segments) = 0
        \<and> seg_end (last segments) = 144"
    unfolding n by blast
  from a b c d e f show ?thesis by (intro conjI)
qed

subsection \<open>Payloads without text\<close>

lemma text_lines_loop_skip:
  "\<forall>l\<in>set lines. skip_line (str_strip l) \<Longrightarrow> text_lines_loop lines text_lines = text_lines"
  by (induction lines arbitrary: text_lines) (simp_all add: Let_def)

lemma words_loop_empty_keys:
  "\<forall>w\<in>set words. clean_word_of w = [] \<Longrightarrow> words_loop words st = st"
  by (induction words arbitrary: st) (auto simp: Let_def split: prod.splits)

lemma lines_loop_empty_keys:
  "\<forall>line\<in>set text_lines. \<forall>w\<in>set (str_split line). clean_word_of w = [] \<Longrightarrow>
   lines_loop text_lines st = st"
  by (induction text_lines arbitrary: st) (simp_all add: words_loop_empty_keys)

lemma segments_loop_no_error:
  "i + length rest = length sentences \<Longrightarrow>
   \<exists>segs. segments_loop sentences i rest acc = Inr segs"
proof (induction rest arbitrary: i acc)
  case Nil
  then show ?case by simp
next
  case (Cons s rest)
  from Cons.prems have i: "i < length sentences" by simp
  from Cons.prems have n: "Suc i + length rest = length sentences" by simp
  show ?case
    using Cons.IH[OF n] by (simp add: truediv_start[OF i] truediv_end[OF i])
qed

lemma segments_of_no_error: "\<exists>segs. segments_of sentences = Inr segs"
  unfolding segments_of_def by (rule segments_loop_no_error) simp

lemma sentences_of_Nil: "sentences_of [] = []"
  by (simp add: sentences_of_def str_split_def)

lemma result_text_of_Nil: "result_text_of [] = []"
  by (simp add: result_text_of_def capitalize_first_def str_strip_def)

lemma no_unique_words:
  "unique_words_of text_lines = [] \<Longrightarrow>
   segments_of (sentences_of (result_text_of (unique_words_of text_lines))) = Inr []"
  by (simp add: result_text_of_Nil sentences_of_Nil segments_of_def)

text \<open>
  C3. The function never raises: the division of lines 86-87 is only reached with at least
  one sentence, so the result is always a list of segments. When no word survives (the
  unique words are empty), in particular when every line of the payload is skipped by the
  test of lines 20-25 (empty, header, time range or number) or when every word of every
  text line has an empty key (punctuation only), the result is the empty list.
\<close>

theorem empty_input_safety:
  "(\<exists>segments. aggressive_clean_vtt vtt_content = Inr segments)
   \<and> (unique_words_of (text_lines_of vtt_content) = [] \<longrightarrow>
        aggressive_clean_vtt vtt_content = Inr [])
   \<and> ((\<forall>l\<in>set (str_split_on (of_char (CHR 0x0A)) vtt_content []). skip_line (str_strip l)) \<longrightarrow>
        aggressive_clean_vtt vtt_content = Inr [])
   \<and> ((\<forall>line\<in>set (text_lines_of vtt_content). \<forall>w\<in>set (str_split line). clean_word_of w = []) \<longrightarrow>
        aggressive_clean_vtt vtt_content = Inr [])"
proof (intro conjI impI)
  show "\<exists>segments. aggressive_clean_vtt vtt_content = Inr segments"
    using segments_of_no_error by (simp add: aggressive_clean_vtt_def Let_def)
next
  assume "unique_words_of (text_lines_of vtt_content) = []"
  then show "aggressive_clean_vtt vtt_content = Inr []"
    by (simp add: aggressive_clean_vtt_def Let_def result_text_of_Nil sentences_of_Nil segments_of_def)
next
  assume "\<forall>l\<in>set (str_split_on (of_char (CHR 0x0A)) vtt_content []). skip_line (str_strip l)"
  then have "text_lines_of vtt_content = []"
    unfolding text_lines_of_def by (rule text_lines_loop_skip)
  then show "aggressive_clean_vtt vtt_content = Inr []"
    by (simp add: aggressive_clean_vtt_def)
next
  assume "\<forall>line\<in>set (text_lines_of vtt_content). \<forall>w\<in>set (str_split line). clean_word_of w = []"
  then have "unique_words_of (text_lines_of vtt_content) = []"
    by (simp add: unique_words_of_def lines_loop_empty_keys)
  then show "aggressive_clean_vtt vtt_content = Inr []"
    by (simp add: aggressive_clean_vtt_def Let_def result_text_of_Nil sentences_of_Nil segments_of_def)
qed

theorem empty_input_safety_witness:
  "aggressive_clean_vtt (ustr '''') = Inr []
   \<and> list_all (\<lambda>l. skip_line (str_strip l))
        (str_split_on (of_char (CHR 0x0A))
           (ustr ''WEBVTT\<newline>Kind: captions\<newline>Language: en\<newline>\<newline>1\<newline>00:00:01.000 --> 00:00:02.000\<newline>'') [])
   \<and> aggressive_clean_vtt
        (ustr ''WEBVTT\<newline>Kind: captions\<newline>Language: en\<newline>\<newline>1\<newline>00:00:01.000 --> 00:00:02.000\<newline>'') = Inr []
   \<and> text_lines_of (ustr ''... !!! ???\<newline>--- ***'') = [ustr ''... !!! ???'', ustr ''--- ***'']
   \<and> unique_words_of [ustr ''... !!! ???'', ustr ''--- ***''] = []
   \<and> aggressive_clean_vtt (ustr ''... !!! ???\<newline>--- ***'') = Inr []
   \<and> unique_words_of (text_lines_of (ustr ''ab'' @ [0xA0])) = []
   \<and> aggressive_clean_vtt (ustr ''ab'' @ [0xA0]) = Inr []
   \<and> aggressive_clean_vtt [0xE9, 0xE9, 0xE9] =
        Inr [\<lparr>seg_text = [0xC9, 0xE9, 0xE9], seg_start = 0, seg_end = 144, seg_duration = 144\<rparr>]"
proof -
  let ?h = "ustr ''WEBVTT\<newline>Kind: captions\<newline>Language: en\<newline>\<newline>1\<newline>00:00:01.000 --> 00:00:02.000\<newline>''"
  let ?p = "ustr ''... !!! ???\<newline>--- ***''"
  let ?n = "ustr ''ab'' @ [0xA0]"
  have e: "\<forall>l\<in>set (str_split_on (of_char (CHR 0x0A)) (ustr '''') []). skip_line (str_strip l)"
    by code_simp
  have a: "aggressive_clean_vtt (ustr '''') = Inr []"
    using empty_input_safety[of "ustr ''''"] e by blast
  have h: "list_all (\<lambda>l. skip_line (str_strip l)) (str_split_on (of_char (CHR 0x0A)) ?h [])"
    by code_simp
  then have "\<forall>l\<in>set (str_split_on (of_char (CHR 0x0A)) ?h []). skip_line (str_strip l)"
    by (simp add: list_all_iff)
  then have b: "aggressive_clean_vtt ?h = Inr []"
    using empty_input_safety[of ?h] by blast
  have t: "text_lines_of ?p = [ustr ''... !!! ???'', ustr ''--- ***'']"
    by code_simp
  have u: "unique_words_of [ustr ''... !!! ???'', ustr ''--- ***''] = []"
    by code_simp
  have c: "aggressive_clean_vtt ?p = Inr []"
    using empty_input_safety[of ?p] t u by simp
  have v: "unique_words_of (text_lines_of ?n) = []"
    by code_simp
  have d: "aggressive_clean_vtt ?n = Inr []"
    using empty_input_safety[of ?n] v by blast
  have f: "aggressive_clean_vtt [0xE9, 0xE9, 0xE9] =
        Inr [\<lparr>seg_text = [0xC9, 0xE9, 0xE9], seg_start = 0, seg_end = 144, seg_duration = 144\<rparr>]"
    by code_simp
  from a h b t u c v d f show ?thesis by (intro conjI)
qed

subsection \<open>The unique words\<close>

lemma first_occurrences_Nil: "first_occurrences seen [] = []"
  by (simp add: first_occurrences_def)

lemma upt_Suc_map: "[0..<Suc n] = 0 # map Suc [0..<n]"
  by (simp add: upt_conv_Cons map_Suc_upt del: upt_Suc)

lemma first_occurrences_Cons:
  "first_occurrences seen (w # ws) =
     (if clean_word_of w \<noteq> [] \<and> clean_word_of w \<notin> seen
      then w # first_occurrences (insert (clean_word_of w) seen) ws else first_occurrences seen ws)"
proof -
  let ?k = clean_word_of
  define P where "P = (\<lambda>j. ?k ((w # ws) ! j) \<noteq> [] \<and> ?k ((w # ws) ! j) \<notin> seen
       \<and> ?k ((w # ws) ! j) \<notin> ?k ` set (take j (w # ws)))"
  define Q where "Q = (\<lambda>seen j. ?k (ws ! j) \<noteq> [] \<and> ?k (ws ! j) \<notin> seen
       \<and> ?k (ws ! j) \<notin> ?k ` set (take j ws))"
  define R where "R = (\<lambda>j. Q seen j \<and> ?k (ws ! j) \<noteq> ?k w)"
  have idx: "[0..<length (w # ws)] = 0 # map Suc [0..<length ws]"
    using upt_Suc_map[of "length ws"] by simp
  have P0: "P 0 \<longleftrightarrow> ?k w \<noteq> [] \<and> ?k w \<notin> seen" by (simp add: P_def)
  have PS: "(\<lambda>x. P (Suc x)) = R" by (auto simp: P_def Q_def R_def fun_eq_iff)
  have first_occurrences_l: "first_occurrences seen (w # ws) = map ((!) (w # ws)) (filter P (0 # map Suc [0..<length ws]))"
    by (simp only: first_occurrences_def idx P_def)
  have first_occurrences_r: "first_occurrences s ws = map ((!) ws) (filter (Q s) [0..<length ws])" for s
    by (simp only: first_occurrences_def Q_def)
  have tl: "map ((!) (w # ws)) (filter P (map Suc [0..<length ws]))
          = map ((!) ws) (filter R [0..<length ws])"
    by (simp add: filter_map comp_def PS)
  have unfold: "first_occurrences seen (w # ws) =
      (if P 0 then [w] else []) @ map ((!) ws) (filter R [0..<length ws])"
    unfolding first_occurrences_l using tl by simp
  show ?thesis
  proof (cases "?k w \<noteq> [] \<and> ?k w \<notin> seen")
    case True
    have "R = Q (insert (?k w) seen)" by (auto simp: R_def Q_def fun_eq_iff)
    with True unfold P0 show ?thesis by (simp add: first_occurrences_r)
  next
    case False
    have "R = Q seen" using False by (auto simp: R_def Q_def fun_eq_iff)
    moreover from False P0 have "\<not> P 0" by blast
    ultimately have "first_occurrences seen (w # ws) = first_occurrences seen ws" using unfold by (simp add: first_occurrences_r)
    with False show ?thesis by (simp only: if_False)
  qed
qed

lemma words_loop_sel:
  "words_loop ws (seen, out) =
     (seen \<union> (clean_word_of ` set ws - {[]}), out @ first_occurrences seen ws)"
proof (induction ws arbitrary: seen out)
  case Nil
  then show ?case by (simp add: first_occurrences_Nil)
next
  case (Cons w ws)
  show ?case
    by (simp only: words_loop.simps Let_def first_occurrences_Cons Cons.IH split: if_split) auto
qed


lemma words_loop_append:
  "words_loop (xs @ ys) st = words_loop ys (words_loop xs st)"
  by (induction xs arbitrary: st) (auto simp: Let_def split: prod.splits)

lemma lines_loop_concat:
  "lines_loop text_lines st = words_loop (concat (map str_split text_lines)) st"
  by (induction text_lines arbitrary: st) (simp_all add: words_loop_append)

lemma unique_words_of_sel:
  "unique_words_of text_lines = first_occurrences {} (concat (map str_split text_lines))"
  by (simp add: unique_words_of_def lines_loop_concat words_loop_sel)

lemma first_occurrences_empty_kept_at:
  "first_occurrences {} ws = map ((!) ws) (filter (kept_at ws) [0..<length ws])"
proof -
  have "kept_at ws = (\<lambda>j. clean_word_of (ws ! j) \<noteq> [] \<and>
          clean_word_of (ws ! j) \<notin> clean_word_of ` set (take j ws))"
    by (simp add: fun_eq_iff kept_at_def)
  then show ?thesis by (simp add: first_occurrences_def)
qed

lemma first_occurrences_keys:
  "distinct (map clean_word_of (first_occurrences seen ws)) \<and>
   clean_word_of ` set (first_occurrences seen ws) \<subseteq> clean_word_of ` set ws - seen - {[]}"
proof (induction ws arbitrary: seen)
  case Nil
  then show ?case by (simp add: first_occurrences_Nil)
next
  case (Cons w ws)
  show ?case
  proof (cases "clean_word_of w \<noteq> [] \<and> clean_word_of w \<notin> seen")
    case True
    from Cons.IH[of "insert (clean_word_of w) seen"] True show ?thesis
      by (simp only: first_occurrences_Cons if_True) auto
  next
    case False
    from Cons.IH[of seen] False show ?thesis
      by (simp only: first_occurrences_Cons if_False) auto
  qed
qed

text \<open>
  C2. Let the words be those of the text lines, line after line and, inside a line, in
  the order of \<^verbatim>\<open>split()\<close>. The unique words are the words at the positions whose key
  (lower case, characters outside \<^verbatim>\<open>\w\<close> removed) is not empty and is not the key of a word
  at an earlier position, in the order of the positions. No two of them have the same key,
  and none has the empty key.
\<close>

theorem dedup_correct:
  "unique_words_of text_lines =
     map ((!) (concat (map str_split text_lines)))
       (filter (kept_at (concat (map str_split text_lines)))
          [0..<length (concat (map str_split text_lines))])
   \<and> distinct (map clean_word_of (unique_words_of text_lines))
   \<and> [] \<notin> set (map clean_word_of (unique_words_of text_lines))"
proof -
  let ?ws = "concat (map str_split text_lines)"
  have 1: "unique_words_of text_lines = first_occurrences {} ?ws" by (rule unique_words_of_sel)
  have 2: "first_occurrences {} ?ws = map ((!) ?ws) (filter (kept_at ?ws) [0..<length ?ws])"
    by (rule first_occurrences_empty_kept_at)
  from first_occurrences_keys[of "{}" ?ws]
  have 3: "distinct (map clean_word_of (first_occurrences {} ?ws))"
    and 4: "[] \<notin> set (map clean_word_of (first_occurrences {} ?ws))" by auto
  from 1 2 3 4 show ?thesis by simp
qed

theorem dedup_correct_witness:
  "unique_words_of [ustr ''Hello hello world'', ustr ''world again, Again!'']
     = [ustr ''Hello'', ustr ''world'', ustr ''again,'']
   \<and> map clean_word_of [ustr ''Hello'', ustr ''world'', ustr ''again,'']
     = [ustr ''hello'', ustr ''world'', ustr ''again'']
   \<and> unique_words_of
       [ustr ''caf'' @ [0xE9] @ ustr '' CAF'' @ [0xC9] @ ustr '' caf '' @ [0xE9] @ ustr ''t'' @ [0xE9]
          @ ustr '' t'']
     = [ustr ''caf'' @ [0xE9], ustr ''caf'', [0xE9] @ ustr ''t'' @ [0xE9], ustr ''t'']
   \<and> unique_words_of [ustr ''Hello hello world'', ustr ''world again, Again!''] =
       map ((!) (concat (map str_split [ustr ''Hello hello world'', ustr ''world again, Again!''])))
        (filter (kept_at (concat (map str_split [ustr ''Hello hello world'', ustr ''world again, Again!''])))
          [0..<length (concat (map str_split [ustr ''Hello hello world'', ustr ''world again, Again!'']))])
   \<and> distinct (map clean_word_of
         (unique_words_of [ustr ''Hello hello world'', ustr ''world again, Again!'']))"
proof -
  have a: "unique_words_of [ustr ''Hello hello world'', ustr ''world again, Again!'']
     = [ustr ''Hello'', ustr ''world'', ustr ''again,'']"
    by code_simp
  have b: "map clean_word_of [ustr ''Hello'', ustr ''world'', ustr ''again,'']
     = [ustr ''hello'', ustr ''world'', ustr ''again'']"
    by code_simp
  have c: "unique_words_of
       [ustr ''caf'' @ [0xE9] @ ustr '' CAF'' @ [0xC9] @ ustr '' caf '' @ [0xE9] @ ustr ''t'' @ [0xE9]
          @ ustr '' t'']
     = [ustr ''caf'' @ [0xE9], ustr ''caf'', [0xE9] @ ustr ''t'' @ [0xE9], ustr ''t'']"
    by code_simp
  from a b c dedup_correct[of "[ustr ''Hello hello world'', ustr ''world again, Again!'']"]
  show ?thesis by (intro conjI) blast+
qed

subsection \<open>The text lines\<close>

lemma text_lines_loop_filter:
  "text_lines_loop lines text_lines =
     text_lines @ map clean_line_of
       (filter (\<lambda>line. \<not> skip_line line \<and> clean_line_of line \<noteq> [] \<and> length (clean_line_of line) > 2)
          (map str_strip lines))"
proof (induction lines arbitrary: text_lines)
  case Nil
  then show ?case by simp
next
  case (Cons l lines)
  show ?case
    by (simp only: text_lines_loop.simps Let_def Cons.IH list.map filter.simps split: if_split)
       auto
qed

lemma spec_keeps_three:
  "spec_keeps [ustr ''WEBVTT'', ustr ''Kind:'', ustr ''Language:''] =
     (\<lambda>line. \<not> skip_line line \<and> clean_line_of line \<noteq> [] \<and> length (clean_line_of line) > 2)"
  by (auto simp: spec_keeps_def skip_line_def fun_eq_iff)

text \<open>
  C5 (amended). The text lines are the cleaned forms, in the order of the payload, of the
  trimmed lines that are not empty, begin with none of the three header markers
  \<^verbatim>\<open>WEBVTT\<close>, \<^verbatim>\<open>Kind:\<close> and \<^verbatim>\<open>Language:\<close>, are not purely numeric, do not contain the arrow
  \<^verbatim>\<open>-->\<close>, and whose cleaned form (tags removed, white space runs collapsed, trimmed) is
  longer than 2.
\<close>

theorem normalizer_rule:
  "text_lines_of vtt_content =
     map clean_line_of
       (filter (spec_keeps [ustr ''WEBVTT'', ustr ''Kind:'', ustr ''Language:''])
          (map str_strip (str_split_on (of_char (CHR 0x0A)) vtt_content [])))"
  by (simp only: text_lines_of_def text_lines_loop_filter spec_keeps_three append_Nil)

theorem normalizer_rule_witness:
  "text_lines_of (ustr ''WEBVTT\<newline>Kind: captions\<newline>\<newline>1\<newline>00:00:01.000 --> 00:00:02.000\<newline>  Hello <c>hello</c>   world\<newline>ok\<newline>world again'')
     = [ustr ''Hello hello world'', ustr ''world again'']
   \<and> text_lines_of ([0xA0] @ ustr ''12345'') = []
   \<and> text_lines_of [0xB2, 0xB3, 0xB9] = []
   \<and> text_lines_of (ustr ''hi'' @ [0xA0, 0x3000, 0xA0]) = []
   \<and> text_lines_of (ustr ''WEBVTT\<newline>Kind: captions\<newline>\<newline>1\<newline>00:00:01.000 --> 00:00:02.000\<newline>  Hello <c>hello</c>   world\<newline>ok\<newline>world again'')
     = map clean_line_of
       (filter (spec_keeps [ustr ''WEBVTT'', ustr ''Kind:'', ustr ''Language:''])
          (map str_strip (str_split_on (of_char (CHR 0x0A)) (ustr ''WEBVTT\<newline>Kind: captions\<newline>\<newline>1\<newline>00:00:01.000 --> 00:00:02.000\<newline>  Hello <c>hello</c>   world\<newline>ok\<newline>world again'') [])))"
proof -
  let ?p = "ustr ''WEBVTT\<newline>Kind: captions\<newline>\<newline>1\<newline>00:00:01.000 --> 00:00:02.000\<newline>  Hello <c>hello</c>   world\<newline>ok\<newline>world again''"
  have a: "text_lines_of ?p = [ustr ''Hello hello world'', ustr ''world again'']"
    by code_simp
  have b: "text_lines_of ([0xA0] @ ustr ''12345'') = []"
    by code_simp
  have c: "text_lines_of [0xB2, 0xB3, 0xB9] = []"
    by code_simp
  have d: "text_lines_of (ustr ''hi'' @ [0xA0, 0x3000, 0xA0]) = []"
    by code_simp
  from a b c d normalizer_rule[of ?p]
  show ?thesis by (intro conjI)
qed

lemma startswith_hd:
  "str_startswith s p \<Longrightarrow> p \<noteq> [] \<Longrightarrow> s \<noteq> [] \<and> hd p = hd s"
  by (cases p; cases s) (auto simp: str_startswith_def)

lemma startswith_Nil: "str_startswith s []"
  by (simp add: str_startswith_def)

lemma single_line:
  assumes "\<forall>payload. text_lines_of payload =
     map clean_line_of (filter (spec_keeps ms) (map str_strip (str_split_on (of_char (CHR 0x0A)) payload [])))"
    and "str_split_on (of_char (CHR 0x0A)) l [] = [l]" and "str_strip l = l"
  shows "spec_keeps ms l \<longleftrightarrow> text_lines_of l \<noteq> []"
proof -
  from assms(1) have "text_lines_of l =
     map clean_line_of (filter (spec_keeps ms) (map str_strip (str_split_on (of_char (CHR 0x0A)) l [])))"
    by blast
  with assms(2,3) show ?thesis by (simp split: if_splits)
qed

text \<open>
  C5 as stated, with two header markers, fails whatever the two markers are: the function
  drops the three lines \<^verbatim>\<open>WEBVTT\<close>, \<^verbatim>\<open>Kind:\<close> and \<^verbatim>\<open>Language:\<close>, which pass every other test and
  begin with three different letters, and keeps the line \<^verbatim>\<open>abc\<close>.
\<close>

theorem normalizer_two_markers_counterexample:
  "\<not> (\<exists>p1 p2. \<forall>payload. text_lines_of payload =
        map clean_line_of
          (filter (spec_keeps [p1, p2]) (map str_strip (str_split_on (of_char (CHR 0x0A)) payload []))))"
proof
  assume "\<exists>p1 p2. \<forall>payload. text_lines_of payload =
        map clean_line_of
          (filter (spec_keeps [p1, p2]) (map str_strip (str_split_on (of_char (CHR 0x0A)) payload [])))"
  then obtain p1 p2 where a: "\<forall>payload. text_lines_of payload =
        map clean_line_of
          (filter (spec_keeps [p1, p2]) (map str_strip (str_split_on (of_char (CHR 0x0A)) payload [])))"
    by blast
  have w: "\<not> spec_keeps [p1, p2] (ustr ''WEBVTT'')"
  proof -
    have "str_split_on (of_char (CHR 0x0A)) (ustr ''WEBVTT'') [] = [ustr ''WEBVTT'']" "str_strip (ustr ''WEBVTT'') = (ustr ''WEBVTT'')"
      "text_lines_of (ustr ''WEBVTT'') = []" by code_simp+
    with single_line[OF a] show ?thesis by simp
  qed
  have k: "\<not> spec_keeps [p1, p2] (ustr ''Kind:'')"
  proof -
    have "str_split_on (of_char (CHR 0x0A)) (ustr ''Kind:'') [] = [ustr ''Kind:'']" "str_strip (ustr ''Kind:'') = (ustr ''Kind:'')"
      "text_lines_of (ustr ''Kind:'') = []" by code_simp+
    with single_line[OF a] show ?thesis by simp
  qed
  have l: "\<not> spec_keeps [p1, p2] (ustr ''Language:'')"
  proof -
    have "str_split_on (of_char (CHR 0x0A)) (ustr ''Language:'') [] = [ustr ''Language:'']"
      "str_strip (ustr ''Language:'') = (ustr ''Language:'')"
      "text_lines_of (ustr ''Language:'') = []" by code_simp+
    with single_line[OF a] show ?thesis by simp
  qed
  have t: "spec_keeps [p1, p2] (ustr ''abc'')"
  proof -
    have "str_split_on (of_char (CHR 0x0A)) (ustr ''abc'') [] = [ustr ''abc'']" "str_strip (ustr ''abc'') = (ustr ''abc'')"
      "text_lines_of (ustr ''abc'') \<noteq> []" by code_simp+
    with single_line[OF a] show ?thesis by simp
  qed
  have cw: "\<not> str_isdigit (ustr ''WEBVTT'')" "\<not> str_contains (ustr ''-->'') (ustr ''WEBVTT'')"
    "length (clean_line_of (ustr ''WEBVTT'')) > 2" by code_simp+
  have ck: "\<not> str_isdigit (ustr ''Kind:'')" "\<not> str_contains (ustr ''-->'') (ustr ''Kind:'')"
    "length (clean_line_of (ustr ''Kind:'')) > 2" by code_simp+
  have cl: "\<not> str_isdigit (ustr ''Language:'')" "\<not> str_contains (ustr ''-->'') (ustr ''Language:'')"
    "length (clean_line_of (ustr ''Language:'')) > 2" by code_simp+
  from w cw have W: "str_startswith (ustr ''WEBVTT'') p1 \<or> str_startswith (ustr ''WEBVTT'') p2"
    by (simp add: spec_keeps_def ustr_def)
  from k ck have K: "str_startswith (ustr ''Kind:'') p1 \<or> str_startswith (ustr ''Kind:'') p2"
    by (simp add: spec_keeps_def ustr_def)
  from l cl have L: "str_startswith (ustr ''Language:'') p1 \<or> str_startswith (ustr ''Language:'') p2"
    by (simp add: spec_keeps_def ustr_def)
  from t have "\<not> str_startswith (ustr ''abc'') p1" "\<not> str_startswith (ustr ''abc'') p2"
    by (simp_all add: spec_keeps_def ustr_def)
  then have ne: "p1 \<noteq> []" "p2 \<noteq> []" using startswith_Nil by auto
  from W ne have W': "hd p1 = of_char CHR ''W'' \<or> hd p2 = of_char CHR ''W''"
    by (auto dest: startswith_hd simp: ustr_def)
  from K ne have K': "hd p1 = of_char CHR ''K'' \<or> hd p2 = of_char CHR ''K''"
    by (auto dest: startswith_hd simp: ustr_def)
  from L ne have L': "hd p1 = of_char CHR ''L'' \<or> hd p2 = of_char CHR ''L''"
    by (auto dest: startswith_hd simp: ustr_def)
  from W' K' L' show False by auto
qed

subsection \<open>The text lines of the text lines\<close>

lemma set_re_sub_tags: "set (re_sub_tags s) \<subseteq> set s"
proof (induction s rule: re_sub_tags.induct)
  case 1
  then show ?case by simp
next
  case (2 c cs)
  show ?case
  proof (cases "c = of_char CHR ''<'' \<and> of_char CHR ''>'' \<in> set cs")
    case True
    have "set (tl (dropWhile (\<lambda>x. x \<noteq> of_char CHR ''>'') cs)) \<subseteq> set cs"
      by (metis list.set_sel(2) set_dropWhileD subsetI tl_Nil)
    with 2(1)[OF True] True show ?thesis by auto
  next
    case False
    with 2(2)[OF False] show ?thesis by auto
  qed
qed

lemma no_tag_suffix: "no_tag (xs @ ys) \<Longrightarrow> no_tag ys"
  by (induction xs) auto

lemma no_tag_prefix: "no_tag (xs @ ys) \<Longrightarrow> no_tag xs"
  by (induction xs) auto

lemma no_tag_dropWhile: "no_tag s \<Longrightarrow> no_tag (dropWhile P s)"
  by (metis no_tag_suffix takeWhile_dropWhile_id)

lemma no_tag_tl: "no_tag s \<Longrightarrow> no_tag (tl s)"
  by (cases s) auto

lemma no_tag_re_sub_tags: "no_tag (re_sub_tags s)"
proof (induction s rule: re_sub_tags.induct)
  case 1
  then show ?case by simp
next
  case (2 c cs)
  show ?case
  proof (cases "c = of_char CHR ''<'' \<and> of_char CHR ''>'' \<in> set cs")
    case True
    with 2(1)[OF True] show ?thesis by simp
  next
    case False
    have "of_char CHR ''>'' \<notin> set cs \<Longrightarrow> of_char CHR ''>'' \<notin> set (re_sub_tags cs)"
      using set_re_sub_tags[of cs] by auto
    with 2(2)[OF False] False show ?thesis by auto
  qed
qed

lemma re_sub_tags_id: "no_tag s \<Longrightarrow> re_sub_tags s = s"
  by (induction s) auto

lemma strip_decomp: "\<exists>xs ys. s = xs @ str_strip s @ ys"
proof -
  let ?t = "dropWhile isspace s"
  have 1: "s = takeWhile isspace s @ ?t" by simp
  have "rev (dropWhile isspace (rev ?t)) @ rev (takeWhile isspace (rev ?t))
          = rev (takeWhile isspace (rev ?t) @ dropWhile isspace (rev ?t))"
    by (simp only: rev_append)
  also have "\<dots> = rev (rev ?t)" by (simp only: takeWhile_dropWhile_id)
  also have "\<dots> = ?t" by (simp only: rev_rev_ident)
  finally have 2: "?t = str_strip s @ rev (takeWhile isspace (rev ?t))"
    by (simp only: str_strip_def)
  from 1 2 have "s = takeWhile isspace s @ str_strip s @ rev (takeWhile isspace (rev ?t))"
    by simp
  then show ?thesis by blast
qed

lemma no_tag_strip: "no_tag s \<Longrightarrow> no_tag (str_strip s)"
  by (metis strip_decomp no_tag_prefix no_tag_suffix)

lemma set_re_sub_ws: "set (re_sub_ws s) \<subseteq> insert (of_char CHR '' '') (set s)"
proof (induction s rule: re_sub_ws.induct)
  case 1
  then show ?case by simp
next
  case (2 c cs)
  show ?case
  proof (cases "isspace c")
    case True
    have "set (dropWhile isspace cs) \<subseteq> set cs" by (auto dest: set_dropWhileD)
    with 2(1)[OF True] True show ?thesis by auto
  next
    case False
    with 2(2)[OF False] show ?thesis by auto
  qed
qed

lemma no_tag_re_sub_ws: "no_tag s \<Longrightarrow> no_tag (re_sub_ws s)"
proof (induction s rule: re_sub_ws.induct)
  case 1
  then show ?case by simp
next
  case (2 c cs)
  from 2(3) have cs: "no_tag cs" by simp
  show ?case
  proof (cases "isspace c")
    case True
    from cs have "no_tag (dropWhile isspace cs)" by (rule no_tag_dropWhile)
    with 2(1)[OF True] True show ?thesis by simp
  next
    case False
    have "of_char CHR ''>'' \<notin> set cs \<Longrightarrow> of_char CHR ''>'' \<notin> set (re_sub_ws cs)"
      using set_re_sub_ws[of cs] by auto
    with 2(2)[OF False cs] 2(3) False show ?thesis by auto
  qed
qed

lemma hd_re_sub_ws: "s \<noteq> [] \<Longrightarrow> \<not> isspace (hd s) \<Longrightarrow> re_sub_ws s \<noteq> [] \<and> hd (re_sub_ws s) = hd s"
  by (cases s) auto

lemma dropWhile_hd: "dropWhile P s = [] \<or> \<not> P (hd (dropWhile P s))"
  by (metis hd_dropWhile)

lemma collapsed_re_sub_ws: "collapsed (re_sub_ws s)"
proof (induction s rule: re_sub_ws.induct)
  case 1
  then show ?case by simp
next
  case (2 c cs)
  show ?case
  proof (cases "isspace c")
    case True
    let ?d = "dropWhile isspace cs"
    have "re_sub_ws ?d = [] \<or> \<not> isspace (hd (re_sub_ws ?d))"
    proof (cases "?d = []")
      case True
      then have "re_sub_ws ?d = []" by (simp only: re_sub_ws.simps)
      then show ?thesis by (rule disjI1)
    next
      case False
      then have "\<not> isspace (hd ?d)" using dropWhile_hd[of isspace cs] by blast
      with False show ?thesis using hd_re_sub_ws[of ?d] by simp
    qed
    with 2(1)[OF True] True show ?thesis by simp
  next
    case False
    with 2(2)[OF False] show ?thesis by simp
  qed
qed

lemma re_sub_ws_id: "collapsed s \<Longrightarrow> re_sub_ws s = s"
proof (induction s)
  case Nil
  then show ?case by simp
next
  case (Cons c cs)
  then have cs: "re_sub_ws cs = cs" by simp
  show ?case
  proof (cases "isspace c")
    case True
    with Cons.prems have c: "c = of_char CHR '' ''" and h: "cs = [] \<or> \<not> isspace (hd cs)" by auto
    from h have "dropWhile isspace cs = cs" by (cases cs) auto
    with True c cs show ?thesis by simp
  next
    case False
    with cs show ?thesis by simp
  qed
qed

lemma collapsed_suffix: "collapsed (xs @ ys) \<Longrightarrow> collapsed ys"
  by (induction xs) auto

lemma collapsed_prefix: "collapsed (xs @ ys) \<Longrightarrow> collapsed xs"
proof (induction xs)
  case Nil
  then show ?case by simp
next
  case (Cons x xs)
  then have "collapsed xs" by simp
  moreover from Cons.prems
  have "\<not> isspace x \<or> (x = of_char CHR '' '' \<and> (xs = [] \<or> \<not> isspace (hd xs)))"
    by (cases xs) auto
  ultimately show ?case by simp
qed

lemma collapsed_strip: "collapsed s \<Longrightarrow> collapsed (str_strip s)"
  by (metis strip_decomp collapsed_prefix collapsed_suffix)

lemma isspace_newline: "isspace (of_char (CHR 0x0A))"
  by code_simp

lemma collapsed_no_newline: "collapsed s \<Longrightarrow> (of_char (CHR 0x0A)) \<notin> set s"
proof (induction s)
  case Nil
  then show ?case by simp
next
  case (Cons c cs)
  then have "(of_char (CHR 0x0A)) \<notin> set cs" by simp
  moreover have "c \<noteq> (of_char (CHR 0x0A))" using Cons.prems isspace_newline by auto
  ultimately show ?case by simp
qed

lemma dropWhile_Nil_imp: "xs = [] \<Longrightarrow> dropWhile P (rev xs) = []"
  by simp

lemma strip_ends: "str_strip s = [] \<or> (\<not> isspace (hd (str_strip s)) \<and> \<not> isspace (last (str_strip s)))"
proof (cases "str_strip s = []")
  case True
  then show ?thesis by (rule disjI1)
next
  case False
  define t where "t = dropWhile isspace s"
  define u where "u = dropWhile isspace (rev t)"
  have s: "str_strip s = rev u" by (simp only: str_strip_def u_def t_def)
  with False have u: "u \<noteq> []" by (simp only: rev_is_Nil_conv not_False_eq_True)
  have "u = [] \<or> \<not> isspace (hd u)" unfolding u_def by (rule dropWhile_hd)
  with u have hu: "\<not> isspace (hd u)" by blast
  have l: "\<not> isspace (last (str_strip s))" using hu u s by (simp add: last_rev)
  have t: "t \<noteq> []" using u dropWhile_Nil_imp[of t isspace] unfolding u_def by blast
  have "t = [] \<or> \<not> isspace (hd t)" unfolding t_def by (rule dropWhile_hd)
  with t have ht: "\<not> isspace (hd t)" by blast
  have "takeWhile isspace (rev t) @ u = rev t" unfolding u_def by (rule takeWhile_dropWhile_id)
  then have "last (rev t) = last u" using u by (metis last_appendR)
  then have "hd t = last u" using t by (simp add: last_rev)
  then have "hd (str_strip s) = hd t" using s u by (simp add: hd_rev)
  with ht l show ?thesis by simp
qed

lemma strip_strip: "str_strip (str_strip s) = str_strip s"
proof (cases "str_strip s = []")
  case True
  have "str_strip [] = []" by (simp add: str_strip_def)
  with True show ?thesis by (simp only:)
next
  case False
  with strip_ends[of s] show ?thesis by (intro str_strip_id) auto
qed

lemma clean_line_props:
  "no_tag (clean_line_of line) \<and> collapsed (clean_line_of line)
   \<and> str_strip (clean_line_of line) = clean_line_of line"
  unfolding clean_line_of_def
  by (intro conjI no_tag_strip no_tag_re_sub_ws no_tag_re_sub_tags collapsed_strip
        collapsed_re_sub_ws strip_strip)

lemma clean_line_fixed:
  assumes "no_tag c" "collapsed c" "str_strip c = c"
  shows "clean_line_of c = c"
  using assms by (simp add: clean_line_of_def re_sub_tags_id re_sub_ws_id)

lemma split_on_prefix:
  "d \<notin> set l \<Longrightarrow> str_split_on d (l @ rest) cur = str_split_on d rest (cur @ l)"
  by (induction l arbitrary: cur) auto

lemma split_on_join:
  "ls \<noteq> [] \<Longrightarrow> \<forall>l\<in>set ls. d \<notin> set l \<Longrightarrow> str_split_on d (str_join [d] ls) [] = ls"
proof (induction "[d]" ls rule: str_join.induct)
  case 1
  then show ?case by simp
next
  case (2 w)
  then have "str_split_on d (w @ []) [] = str_split_on d [] ([] @ w)"
    by (intro split_on_prefix) simp
  then show ?case by simp
next
  case (3 w v ws)
  then have "d \<notin> set w" by simp
  then have "str_split_on d (w @ [d] @ str_join [d] (v # ws)) [] =
             str_split_on d ([d] @ str_join [d] (v # ws)) ([] @ w)"
    by (rule split_on_prefix)
  also have "\<dots> = w # str_split_on d (str_join [d] (v # ws)) []" by simp
  also have "\<dots> = w # v # ws" using 3 by simp
  finally show ?case by simp
qed

lemma text_lines_props:
  "\<forall>c\<in>set (text_lines_of p). no_tag c \<and> collapsed c \<and> str_strip c = c \<and> length c > 2"
  unfolding text_lines_of_def text_lines_loop_filter
  using clean_line_props by auto

lemma renormalize_lines:
  assumes "\<forall>c\<in>set ls. no_tag c \<and> collapsed c \<and> str_strip c = c \<and> length c > 2"
  shows "text_lines_of (str_join [of_char (CHR 0x0A)] ls) = filter (\<lambda>l. \<not> skip_line l) ls"
proof (cases "ls = []")
  case True
  have "text_lines_of [] = []" by code_simp
  with True show ?thesis by simp
next
  case False
  have nl: "\<forall>l\<in>set ls. (of_char (CHR 0x0A)) \<notin> set l" using assms collapsed_no_newline by blast
  have split: "str_split_on (of_char (CHR 0x0A)) (str_join [of_char (CHR 0x0A)] ls) [] = ls"
    using False nl by (rule split_on_join)
  have strip: "map str_strip ls = ls" using assms by (simp add: map_idI)
  have fixed: "\<forall>c\<in>set ls. clean_line_of c = c" using assms clean_line_fixed by blast
  have filt: "filter (\<lambda>line. \<not> skip_line line \<and> clean_line_of line \<noteq> [] \<and> length (clean_line_of line) > 2) ls
            = filter (\<lambda>l. \<not> skip_line l) ls"
    using assms fixed by (intro filter_cong) auto
  have "map clean_line_of (filter (\<lambda>l. \<not> skip_line l) ls) = filter (\<lambda>l. \<not> skip_line l) ls"
    using fixed by (intro map_idI) auto
  with split strip filt show ?thesis
    by (simp add: text_lines_of_def text_lines_loop_filter)
qed

text \<open>
  C6 (amended). Joining the text lines with newlines and computing the text lines of that
  payload gives the text lines that the test of lines 20-25 does not skip (those that do
  not begin with a header marker, do not contain the arrow and are not purely numeric),
  unchanged and in order; so the sequence is the same when the test skips none of them.
\<close>

theorem renormalization:
  "text_lines_of (str_join [of_char (CHR 0x0A)] (text_lines_of vtt_content)) =
     filter (\<lambda>l. \<not> skip_line l) (text_lines_of vtt_content)
   \<and> ((\<forall>l\<in>set (text_lines_of vtt_content). \<not> skip_line l) \<longrightarrow>
        text_lines_of (str_join [of_char (CHR 0x0A)] (text_lines_of vtt_content)) = text_lines_of vtt_content)"
proof -
  have 1: "text_lines_of (str_join [of_char (CHR 0x0A)] (text_lines_of vtt_content)) =
     filter (\<lambda>l. \<not> skip_line l) (text_lines_of vtt_content)"
    using text_lines_props by (rule renormalize_lines)
  then show ?thesis by simp
qed

text \<open>
  C6 as stated fails: the line \<^verbatim>\<open><c>2024</c>\<close> is kept, because the test for a number is
  made before the tags are removed; its cleaned form \<^verbatim>\<open>2024\<close> is a number and is dropped
  by the second pass.
\<close>

theorem renormalization_counterexample:
  "text_lines_of (ustr ''<c>2024</c>'') = [ustr ''2024'']
   \<and> text_lines_of (str_join [of_char (CHR 0x0A)] (text_lines_of (ustr ''<c>2024</c>''))) = []
   \<and> text_lines_of (str_join [of_char (CHR 0x0A)] (text_lines_of (ustr ''<c>2024</c>''))) \<noteq> text_lines_of (ustr ''<c>2024</c>'')"
  by code_simp

theorem renormalization_witness:
  "text_lines_of (ustr ''Hello <c>hello</c>   world\<newline><c>2024</c>\<newline>world again'')
      = [ustr ''Hello hello world'', ustr ''2024'', ustr ''world again'']
   \<and> text_lines_of (str_join [of_char (CHR 0x0A)]
         (text_lines_of (ustr ''Hello <c>hello</c>   world\<newline><c>2024</c>\<newline>world again'')))
      = [ustr ''Hello hello world'', ustr ''world again'']
   \<and> text_lines_of (ustr ''<c>'' @ [0xB2, 0xB3, 0xB9] @ ustr ''</c>'') = [[0xB2, 0xB3, 0xB9]]
   \<and> text_lines_of (str_join [of_char (CHR 0x0A)]
         (text_lines_of (ustr ''<c>'' @ [0xB2, 0xB3, 0xB9] @ ustr ''</c>''))) = []
   \<and> list_all (\<lambda>l. \<not> skip_line l) (text_lines_of (ustr ''Hello <c>hello</c>   world\<newline>world again''))
   \<and> text_lines_of (str_join [of_char (CHR 0x0A)]
         (text_lines_of (ustr ''Hello <c>hello</c>   world\<newline>world again'')))
      = text_lines_of (ustr ''Hello <c>hello</c>   world\<newline>world again'')"
proof -
  let ?p = "ustr ''Hello <c>hello</c>   world\<newline><c>2024</c>\<newline>world again''"
  let ?q = "ustr ''Hello <c>hello</c>   world\<newline>world again''"
  let ?s = "ustr ''<c>'' @ [0xB2, 0xB3, 0xB9] @ ustr ''</c>''"
  have a: "text_lines_of ?p = [ustr ''Hello hello world'', ustr ''2024'', ustr ''world again'']"
    by code_simp
  have f: "filter (\<lambda>l. \<not> skip_line l) [ustr ''Hello hello world'', ustr ''2024'', ustr ''world again'']
            = [ustr ''Hello hello world'', ustr ''world again'']"
    by code_simp
  have b: "text_lines_of (str_join [of_char (CHR 0x0A)] (text_lines_of ?p))
            = [ustr ''Hello hello world'', ustr ''world again'']"
    using renormalization[of ?p] a f by simp
  have s1: "text_lines_of ?s = [[0xB2, 0xB3, 0xB9]]"
    by code_simp
  have s2: "filter (\<lambda>l. \<not> skip_line l) [[0xB2, 0xB3, 0xB9]] = []"
    by code_simp
  have s3: "text_lines_of (str_join [of_char (CHR 0x0A)] (text_lines_of ?s)) = []"
    using renormalization[of ?s] s1 s2 by simp
  have c: "list_all (\<lambda>l. \<not> skip_line l) (text_lines_of ?q)"
    by code_simp
  then have "\<forall>l\<in>set (text_lines_of ?q). \<not> skip_line l"
    by (simp add: list_all_iff)
  with renormalization[of ?q]
  have d: "text_lines_of (str_join [of_char (CHR 0x0A)] (text_lines_of ?q)) = text_lines_of ?q"
    by blast
  from a b s1 s3 c d show ?thesis by (intro conjI)
qed

subsection \<open>Independence of the layout of the set\<close>

lemma words_loop_with_sim:
  assumes "represents S \<alpha>"
  shows "map_prod \<alpha> id (words_loop_with S words (s, out)) = words_loop words (\<alpha> s, out)"
proof (induction words arbitrary: s out)
  case Nil
  then show ?case by simp
next
  case (Cons w words)
  from assms have c: "set_contains S (clean_word_of w) s = (clean_word_of w \<in> \<alpha> s)"
    and a: "\<alpha> (set_add S (clean_word_of w) s) = insert (clean_word_of w) (\<alpha> s)"
    by (simp_all add: represents_def)
  show ?case
  proof (cases "clean_word_of w \<noteq> [] \<and> clean_word_of w \<notin> \<alpha> s")
    case True
    with c a Cons.IH[of "set_add S (clean_word_of w) s" "out @ [w]"] show ?thesis
      by (simp add: Let_def)
  next
    case False
    with c Cons.IH[of s out] show ?thesis by (auto simp: Let_def)
  qed
qed

lemma lines_loop_with_sim:
  assumes "represents S \<alpha>"
  shows "map_prod \<alpha> id (lines_loop_with S text_lines (s, out)) = lines_loop text_lines (\<alpha> s, out)"
proof (induction text_lines arbitrary: s out)
  case Nil
  then show ?case by simp
next
  case (Cons l text_lines)
  obtain s' out' where w: "words_loop_with S (str_split l) (s, out) = (s', out')"
    by (cases "words_loop_with S (str_split l) (s, out)") auto
  with words_loop_with_sim[OF assms, of "str_split l" s out]
  have "words_loop (str_split l) (\<alpha> s, out) = (\<alpha> s', out')" by simp
  with w Cons.IH[of s' out'] show ?case by simp
qed

lemma unique_words_with_eq:
  assumes "represents S \<alpha>"
  shows "unique_words_with S text_lines = unique_words_of text_lines"
proof -
  from assms have e: "\<alpha> (set_new S) = {}" by (simp add: represents_def)
  have "snd (map_prod \<alpha> id (lines_loop_with S text_lines (set_new S, []))) =
        snd (lines_loop text_lines (\<alpha> (set_new S), []))"
    using lines_loop_with_sim[OF assms, of text_lines "set_new S" "[]"] by simp
  then show ?thesis by (simp add: unique_words_with_def unique_words_of_def e)
qed

lemma clean_with_eq:
  assumes "represents S \<alpha>"
  shows "aggressive_clean_vtt_with S vtt_content = aggressive_clean_vtt vtt_content"
  unfolding aggressive_clean_vtt_with_def aggressive_clean_vtt_def
  by (simp only: unique_words_with_eq[OF assms])

lemma represents_front_list: "represents front_list set"
  by (simp add: represents_def front_list_def)

lemma represents_back_list: "represents back_list set"
  by (simp add: represents_def back_list_def)

text \<open>
  C9. The result depends on the payload only: two runs on equal payloads return equal
  segment lists, in the same order, whatever data structures hold the set of seen keys in
  the two runs, as long as each behaves as a set; the result is the one computed with the
  mathematical set.
\<close>

theorem deterministic:
  assumes "represents S1 \<alpha>1" and "represents S2 \<alpha>2" and "payload1 = payload2"
  shows "aggressive_clean_vtt_with S1 payload1 = aggressive_clean_vtt_with S2 payload2
       \<and> aggressive_clean_vtt_with S1 payload1 = aggressive_clean_vtt payload2"
  using assms by (simp add: clean_with_eq)

theorem deterministic_witness:
  "represents front_list set \<and> represents back_list set
   \<and> snd (lines_loop_with front_list [ustr ''Hello hello world'', ustr ''world again''] ([], []))
       = [ustr ''Hello'', ustr ''world'', ustr ''again'']
   \<and> fst (lines_loop_with front_list [ustr ''Hello hello world'', ustr ''world again''] ([], []))
       = [ustr ''again'', ustr ''world'', ustr ''hello'']
   \<and> fst (lines_loop_with back_list [ustr ''Hello hello world'', ustr ''world again''] ([], []))
       = [ustr ''hello'', ustr ''world'', ustr ''again'']
   \<and> aggressive_clean_vtt_with front_list (ustr ''Hello hello world\<newline>world again'')
       = aggressive_clean_vtt_with back_list (ustr ''Hello hello world\<newline>world again'')
   \<and> aggressive_clean_vtt_with front_list (ustr ''Hello hello world\<newline>world again'')
       = aggressive_clean_vtt (ustr ''Hello hello world\<newline>world again'')"
proof -
  have a: "snd (lines_loop_with front_list [ustr ''Hello hello world'', ustr ''world again''] ([], []))
       = [ustr ''Hello'', ustr ''world'', ustr ''again'']" by code_simp
  have b: "fst (lines_loop_with front_list [ustr ''Hello hello world'', ustr ''world again''] ([], []))
       = [ustr ''again'', ustr ''world'', ustr ''hello'']" by code_simp
  have c: "fst (lines_loop_with back_list [ustr ''Hello hello world'', ustr ''world again''] ([], []))
       = [ustr ''hello'', ustr ''world'', ustr ''again'']" by code_simp
  note d = deterministic[OF represents_front_list represents_back_list refl,
      of "(ustr ''Hello hello world\<newline>world again'')"]
  from represents_front_list represents_back_list a b c d[THEN conjunct1] d[THEN conjunct2]
  show ?thesis by (intro conjI)
qed

end
